theory Spec2Isabelle
  imports Complex_Main
begin

section \<open>Saucer: procedural universe, orbital groups, craft and archive import\<close>

text \<open>
  A shallow embedding of \<^verbatim>\<open>src/main.py\<close>. Python floats and ints that flow into
  positions, radii, speeds and angles are modelled as \<^typ>\<open>real\<close> (exact arithmetic,
  no rounding, no NaN); Python ints that are used as ints (chunk coordinates, list
  indices, random integers) are \<^typ>\<open>int\<close>. Rendering (OpenGL, pygame, tkinter) is
  left out: it does not write any field the definitions below read.
\<close>

subsection \<open>Exceptions\<close>

text \<open>The exceptions the modelled code can raise; every \<^verbatim>\<open>raise\<close> is a value.\<close>

datatype py_error =
    ValueError
  | KeyError
  | IndexError
  | ZeroDivisionError
  | BadZipFile
  | UnidentifiedImageError

subsection \<open>Vec3\<close>

datatype Vec3 = Vec3 (vx: real) (vy: real) (vz: real)

definition Vec3_copy :: "Vec3 \<Rightarrow> Vec3" where
  "Vec3_copy v = Vec3 (vx v) (vy v) (vz v)"

definition Vec3_add :: "Vec3 \<Rightarrow> Vec3 \<Rightarrow> Vec3" where
  "Vec3_add s v = Vec3 (vx s + vx v) (vy s + vy v) (vz s + vz v)"

definition Vec3_sub :: "Vec3 \<Rightarrow> Vec3 \<Rightarrow> Vec3" where
  "Vec3_sub s v = Vec3 (vx s - vx v) (vy s - vy v) (vz s - vz v)"

definition Vec3_mul :: "Vec3 \<Rightarrow> real \<Rightarrow> Vec3" where
  "Vec3_mul s scalar = Vec3 (vx s * scalar) (vy s * scalar) (vz s * scalar)"

definition Vec3_mag :: "Vec3 \<Rightarrow> real" where
  "Vec3_mag s = sqrt ((vx s)\<^sup>2 + (vy s)\<^sup>2 + (vz s)\<^sup>2)"

definition Vec3_normalize :: "Vec3 \<Rightarrow> Vec3" where
  "Vec3_normalize s =
     (let m = Vec3_mag s
      in if m > 0 then Vec3 (vx s / m) (vy s / m) (vz s / m) else Vec3 0 0 0)"

definition Vec3_dist :: "Vec3 \<Rightarrow> Vec3 \<Rightarrow> real" where
  "Vec3_dist s v = Vec3_mag (Vec3_sub s v)"

definition lerp :: "real \<Rightarrow> real \<Rightarrow> real \<Rightarrow> real" where
  "lerp a b t = a + (b - a) * t"

text \<open>Python's \<^verbatim>\<open>a % b\<close> on floats, for \<open>b \<noteq> 0\<close>: the remainder has the sign of \<open>b\<close>.\<close>

definition py_fmod :: "real \<Rightarrow> real \<Rightarrow> real" where
  "py_fmod a b = a - b * of_int \<lfloor>a / b\<rfloor>"

definition lerp_angle :: "real \<Rightarrow> real \<Rightarrow> real \<Rightarrow> real" where
  "lerp_angle current target t =
     (let diff = py_fmod (target - current + 180) 360 - 180
      in current + diff * t)"

subsection \<open>Manifests and archives\<close>

text \<open>
  A parsed JSON object of the editor's formats, as a dictionary with typed optional keys:
  \<open>None\<close> is "key absent" (what \<^verbatim>\<open>dict.get\<close> answers with its default). The keys
  are the ones the code reads; a key that is present holds a value of the JSON type the
  format gives it (a string, a number, a list of objects), so the \<^verbatim>\<open>TypeError\<close>s
  of ill-typed values are outside the model.
\<close>

datatype jparams = JParams
  (p_radius: "real option")
  (p_enableRings: "bool option")
  (p_ringDiameter: "real option")
  (p_ringColorInner: "string option")
  (p_ringColorOuter: "string option")

datatype jcolors = JColors (c_ocean: "string option")

datatype jdict = JDict
  (j_seed: "string option")
  (j_type: "string option")
  (j_params: "jparams option")
  (j_colors: "jcolors option")
  (j_orbitDistance: "real option")
  (j_orbitSpeed: "real option")
  (j_file: "string option")
  (j_parentId: "int option")
  (j_name: "string option")
  (j_bodies: "jdict list option")
  (j_systems: "jdict list option")

text \<open>
  The bytes of an archive entry, by what the three decoders of the code make of them:
  \<^verbatim>\<open>json.loads(bytes.decode())\<close> succeeds on \<open>Json\<close> only, \<^verbatim>\<open>zipfile.ZipFile\<close>
  on \<open>Archive\<close> only, \<^verbatim>\<open>Image.open\<close> on \<open>Png\<close> only. An archive maps entry names
  to entries. \<open>Empty\<close> is the entry of zero bytes, \<^verbatim>\<open>b''\<close>: no decoder accepts it, and
  it is the one value of type \<^verbatim>\<open>bytes\<close> that an \<^verbatim>\<open>if\<close> takes for false.
\<close>

datatype content =
    Empty
  | Garbage
  | Png
  | Json jdict
  | Archive "string \<Rightarrow> content option"

type_synonym zip = "string \<Rightarrow> content option"

definition zip_read :: "zip \<Rightarrow> string \<Rightarrow> py_error + content" where
  "zip_read z n = (case z n of None \<Rightarrow> Inl KeyError | Some c \<Rightarrow> Inr c)"

definition json_loads :: "content \<Rightarrow> py_error + jdict" where
  "json_loads c = (case c of Json d \<Rightarrow> Inr d | _ \<Rightarrow> Inl ValueError)"

definition ZipFile :: "content \<Rightarrow> py_error + zip" where
  "ZipFile c = (case c of Archive z \<Rightarrow> Inr z | _ \<Rightarrow> Inl BadZipFile)"

definition Image_open :: "content \<Rightarrow> py_error + unit" where
  "Image_open c = (case c of Png \<Rightarrow> Inr () | _ \<Rightarrow> Inl UnidentifiedImageError)"

text \<open>
  The truth value of \<^verbatim>\<open>zip_obj.read(n) if n in zip_obj.namelist() else None\<close>: false
  for \<^verbatim>\<open>None\<close> and for the bytes of length zero.
\<close>

definition is_empty :: "content \<Rightarrow> bool" where
  "is_empty c = (case c of Empty \<Rightarrow> True | _ \<Rightarrow> False)"

definition truthy :: "content option \<Rightarrow> bool" where
  "truthy b = (case b of None \<Rightarrow> False | Some c \<Rightarrow> \<not> is_empty c)"

subsection \<open>Parsing a hex colour\<close>

text \<open>
  Python's \<^verbatim>\<open>int(s, 16)\<close> on an ASCII string: optional surrounding whitespace
  (tab, line feed, vertical tab, form feed, carriage return, space), an
  optional sign, an optional \<^verbatim>\<open>0x\<close> prefix, then hex digits that single underscores
  may separate; anything else raises \<^verbatim>\<open>ValueError\<close>. \<open>int16_digits\<close> strips
  the leading whitespace, the sign (remembering a minus) and the prefix.
\<close>

definition is_space :: "char \<Rightarrow> bool" where
  "is_space c = (let n = (of_char c :: nat) in (9 \<le> n \<and> n \<le> 13) \<or> n = 32)"

definition hex_digit :: "char \<Rightarrow> int option" where
  "hex_digit c =
     (let n = (of_char c :: nat)
      in if 48 \<le> n \<and> n \<le> 57 then Some (int n - 48)
         else if 97 \<le> n \<and> n \<le> 102 then Some (int n - 87)
         else if 65 \<le> n \<and> n \<le> 70 then Some (int n - 55)
         else None)"

text \<open>
  The digit scan: \<open>prev_us\<close> says that the previous character was an underscore,
  \<open>seen\<close> that a digit has been read. It returns the value and the unread rest.
\<close>

fun scan_digits :: "bool \<Rightarrow> bool \<Rightarrow> int \<Rightarrow> string \<Rightarrow> py_error + (int \<times> string)" where
  "scan_digits prev_us seen acc [] =
     (if prev_us \<or> \<not> seen then Inl ValueError else Inr (acc, []))"
| "scan_digits prev_us seen acc (c # cs) =
     (if c = CHR ''_'' then
        (if prev_us then Inl ValueError else scan_digits True seen acc cs)
      else
        (case hex_digit c of
           Some d \<Rightarrow> scan_digits False True (16 * acc + d) cs
         | None \<Rightarrow> (if prev_us \<or> \<not> seen then Inl ValueError else Inr (acc, c # cs))))"

definition int16_digits :: "string \<Rightarrow> bool \<times> string" where
  "int16_digits s =
     (let s1 = dropWhile is_space s;
          neg = (s1 \<noteq> [] \<and> hd s1 = CHR ''-'');
          s2 = (if s1 \<noteq> [] \<and> (hd s1 = CHR ''+'' \<or> hd s1 = CHR ''-'') then tl s1 else s1);
          pre = (take 2 s2 = ''0x'' \<or> take 2 s2 = ''0X'');
          s3 = (if pre then drop 2 s2 else s2);
          s4 = (if pre \<and> s3 \<noteq> [] \<and> hd s3 = CHR ''_'' then tl s3 else s3)
      in (neg, s4))"

definition py_int16 :: "string \<Rightarrow> py_error + int" where
  "py_int16 s =
     (case int16_digits s of
        (neg, s4) \<Rightarrow>
          if s4 \<noteq> [] \<and> hd s4 = CHR ''_'' then Inl ValueError
          else (case scan_digits False False 0 s4 of
                  Inl e \<Rightarrow> Inl e
                | Inr (v, rest) \<Rightarrow>
                    if dropWhile is_space rest = [] then Inr (if neg then - v else v)
                    else Inl ValueError))"

text \<open>Lines 53-57: the slices \<^verbatim>\<open>[1:3]\<close>, \<^verbatim>\<open>[3:5]\<close>, \<^verbatim>\<open>[5:7]\<close>, each parsed and divided by 255.\<close>

definition hex_color :: "string \<Rightarrow> py_error + (real \<times> real \<times> real)" where
  "hex_color ocean_hex =
     (case py_int16 (take 2 (drop 1 ocean_hex)) of
        Inl e \<Rightarrow> Inl e
      | Inr r \<Rightarrow>
          (case py_int16 (take 2 (drop 3 ocean_hex)) of
             Inl e \<Rightarrow> Inl e
           | Inr g \<Rightarrow>
               (case py_int16 (take 2 (drop 5 ocean_hex)) of
                  Inl e \<Rightarrow> Inl e
                | Inr b \<Rightarrow> Inr (of_int r / 255, of_int g / 255, of_int b / 255))))"

subsection \<open>The library the code calls\<close>

text \<open>
  Python's \<^verbatim>\<open>random\<close> module keeps one hidden generator state (type \<open>'g\<close>);
  \<^verbatim>\<open>random.seed\<close> replaces it, \<^verbatim>\<open>random.randint\<close> and \<^verbatim>\<open>random.random\<close>
  read and advance it. The generator, \<^verbatim>\<open>hash\<close> on a triple of ints and \<^verbatim>\<open>str\<close> on
  an exception belong to the interpreter, not to the repository: they are parameters.
\<close>

record 'g stdlib =
  hash_tuple :: "int \<times> int \<times> int \<Rightarrow> int"
  random_seed :: "int \<Rightarrow> 'g"
  random_randint :: "int \<Rightarrow> int \<Rightarrow> 'g \<Rightarrow> int \<times> 'g"
  random_random :: "'g \<Rightarrow> real \<times> 'g"
  exc_str :: "py_error \<Rightarrow> string"

subsection \<open>Planet\<close>

text \<open>
  Planets are objects: they are compared by identity (\<^verbatim>\<open>p == b.parent\<close>), shared
  between lists, and mutated in place. A planet is therefore a reference into a heap of
  Planet records. Every planet owns its position vector (each constructor call in the
  code passes a fresh \<^verbatim>\<open>Vec3\<close>), so the vector is stored by value. The field
  \<open>kind\<close> is \<^verbatim>\<open>self.type\<close>, \<open>textured\<close> says that \<^verbatim>\<open>load_texture\<close> ran.
\<close>

type_synonym ref = nat

record Planet =
  pos :: Vec3
  name :: string
  kind :: string
  radius :: real
  orbitDistance :: real
  orbitSpeed :: real
  orbitAngle :: real
  parent :: "ref option"
  color :: "real \<times> real \<times> real"
  textured :: bool
  hasRings :: bool
  ringDiameter :: real
  ringColorInner :: string
  ringColorOuter :: string

subsection \<open>SolarSystem, Universe, Saucer and the process state\<close>

record SolarSystem =
  sys_name :: string
  bodies :: "ref list"
  center_pos :: Vec3

type_synonym chunk = "int \<times> int \<times> int"

record Universe =
  chunk_size :: int
  planets :: "chunk \<Rightarrow> ref list option"

record Saucer =
  s_pos :: Vec3
  s_vel :: Vec3
  yaw :: real
  pitch :: real
  speed :: real
  max_speed :: real
  cam_yaw :: real
  cam_pitch :: real
  cam_dist :: real
  landed_on :: "ref option"
  ui_message :: string

text \<open>
  The state of the process: the hidden generator of \<^verbatim>\<open>random\<close>, the heap of planets
  with its allocation counter, and the module globals \<^verbatim>\<open>universe\<close>, \<^verbatim>\<open>player\<close>,
  \<^verbatim>\<open>custom_systems\<close>. The field \<open>gen_log\<close> is a history variable, not a variable of
  the program: \<open>generate_chunk\<close> appends the chunk key to it each time its generating
  branch (lines 155-165) runs.
\<close>

record 'g World =
  rng :: 'g
  heap :: "ref \<Rightarrow> Planet"
  next_ref :: ref
  universe :: Universe
  player :: Saucer
  custom_systems :: "SolarSystem list"
  gen_log :: "chunk list"

text \<open>\<^verbatim>\<open>Planet.__init__\<close> (lines 39-69) and \<^verbatim>\<open>load_texture\<close>, as far as it can raise.\<close>

definition load_texture :: "content \<Rightarrow> py_error + unit" where
  "load_texture png_bytes = Image_open png_bytes"

text \<open>
  Lines 51-52: the colour string, with the default of \<^verbatim>\<open>dict.get\<close> when the key
  \<^verbatim>\<open>colors\<close> or the key \<^verbatim>\<open>ocean\<close> is absent.
\<close>

definition ocean_hex :: "jdict \<Rightarrow> string" where
  "ocean_hex data =
     (case j_colors data of
        None \<Rightarrow> ''#4488ff''
      | Some c \<Rightarrow> (case c_ocean c of None \<Rightarrow> ''#4488ff'' | Some h \<Rightarrow> h))"

text \<open>
  The object that the assignments of \<^verbatim>\<open>__init__\<close> build, from the position, the
  manifest, whether a height map was loaded, the draw \<open>u\<close> of \<^verbatim>\<open>random.random()\<close>
  (line 47) and the parsed colour.
\<close>

definition Planet_fields :: "Vec3 \<Rightarrow> jdict \<Rightarrow> bool \<Rightarrow> real \<Rightarrow> real \<times> real \<times> real \<Rightarrow> Planet" where
  "Planet_fields p data has_texture u col =
     \<lparr>pos = p,
      name = (case j_seed data of None \<Rightarrow> ''Unknown'' | Some s \<Rightarrow> s),
      kind = (case j_type data of None \<Rightarrow> ''planet'' | Some t \<Rightarrow> t),
      radius = (case j_params data of
                  None \<Rightarrow> 100
                | Some ps \<Rightarrow> (case p_radius ps of None \<Rightarrow> 100 | Some r \<Rightarrow> r)),
      orbitDistance = (case j_orbitDistance data of None \<Rightarrow> 0 | Some d \<Rightarrow> d),
      orbitSpeed = (case j_orbitSpeed data of None \<Rightarrow> 0.2 | Some v \<Rightarrow> v),
      orbitAngle = u * pi * 2,
      parent = None,
      color = col,
      textured = has_texture,
      hasRings = (case j_params data of
                    None \<Rightarrow> False
                  | Some ps \<Rightarrow> (case p_enableRings ps of None \<Rightarrow> False | Some b \<Rightarrow> b)),
      ringDiameter = (case j_params data of
                        None \<Rightarrow> 1.8
                      | Some ps \<Rightarrow> (case p_ringDiameter ps of None \<Rightarrow> 1.8 | Some d \<Rightarrow> d)),
      ringColorInner = (case j_params data of
                          None \<Rightarrow> ''#FFD700''
                        | Some ps \<Rightarrow> (case p_ringColorInner ps of None \<Rightarrow> ''#FFD700'' | Some c \<Rightarrow> c)),
      ringColorOuter = (case j_params data of
                          None \<Rightarrow> ''#DAA520''
                        | Some ps \<Rightarrow> (case p_ringColorOuter ps of None \<Rightarrow> ''#DAA520'' | Some c \<Rightarrow> c))\<rparr>"

text \<open>
  The effects of \<^verbatim>\<open>__init__\<close> in their order: the draw of line 47 advances the
  generator, the colour is parsed (and may raise), the height map, when line 61 finds
  it true (there are bytes, and more than zero of them), is decoded (and may raise); the
  new object gets the next free reference.
\<close>

definition Planet_init ::
  "'g stdlib \<Rightarrow> Vec3 \<Rightarrow> jdict \<Rightarrow> content option \<Rightarrow> 'g World \<Rightarrow> (py_error + ref) \<times> 'g World" where
  "Planet_init L p data heightmap_bytes w =
     (case random_random L (rng w) of
        (u, g) \<Rightarrow>
          (case hex_color (ocean_hex data) of
             Inl e \<Rightarrow> (Inl e, w\<lparr>rng := g\<rparr>)
           | Inr col \<Rightarrow>
               (case (case heightmap_bytes of
                        None \<Rightarrow> Inr ()
                      | Some b \<Rightarrow> if is_empty b then Inr () else load_texture b) of
                  Inl e \<Rightarrow> (Inl e, w\<lparr>rng := g\<rparr>)
                | Inr _ \<Rightarrow>
                    (Inr (next_ref w),
                     w\<lparr>rng := g,
                       heap := (heap w)(next_ref w :=
                                 Planet_fields p data (truthy heightmap_bytes) u col),
                       next_ref := Suc (next_ref w)\<rparr>))))"

text \<open>
  \<^verbatim>\<open>Planet.update_orbit\<close> (lines 114-118): the assignments write \<^verbatim>\<open>self.pos.x\<close> and
  \<^verbatim>\<open>self.pos.z\<close>; \<^verbatim>\<open>self.pos.y\<close> is not assigned.
\<close>

definition update_orbit :: "real \<Rightarrow> Vec3 \<Rightarrow> Planet \<Rightarrow> Planet" where
  "update_orbit dt parent_pos self =
     (if orbitDistance self > 0.1 \<and> parent self \<noteq> None then
        (let a = orbitAngle self + orbitSpeed self * dt * 0.3
         in self\<lparr>orbitAngle := a,
                 pos := Vec3 (vx parent_pos + cos a * orbitDistance self)
                             (vy (pos self))
                             (vz parent_pos + sin a * orbitDistance self)\<rparr>)
      else self)"

text \<open>\<^verbatim>\<open>SolarSystem\<close> (lines 121-137).\<close>

definition SolarSystem_init :: "string \<Rightarrow> SolarSystem" where
  "SolarSystem_init n = \<lparr>sys_name = n, bodies = [], center_pos = Vec3 0 0 0\<rparr>"

definition add_body :: "(ref \<Rightarrow> Planet) \<Rightarrow> SolarSystem \<Rightarrow> ref \<Rightarrow> SolarSystem" where
  "add_body h self body =
     (let s1 = self\<lparr>bodies := bodies self @ [body]\<rparr>
      in if kind (h body) = ''sun'' then s1\<lparr>center_pos := Vec3_copy (pos (h body))\<rparr> else s1)"

text \<open>
  One iteration of the loop of \<^verbatim>\<open>SolarSystem.update\<close> (lines 134-137). The generator
  expression finds \<^verbatim>\<open>b.parent\<close> itself when it is in the list, and nothing otherwise.
\<close>

definition update_body :: "real \<Rightarrow> SolarSystem \<Rightarrow> (ref \<Rightarrow> Planet) \<Rightarrow> ref \<Rightarrow> (ref \<Rightarrow> Planet)" where
  "update_body dt self h b =
     (case parent (h b) of
        None \<Rightarrow> h
      | Some pr \<Rightarrow>
          (let parent_pos = (if pr \<in> set (bodies self) then pos (h pr) else center_pos self)
           in h(b := update_orbit dt parent_pos (h b))))"

definition SolarSystem_update :: "real \<Rightarrow> SolarSystem \<Rightarrow> (ref \<Rightarrow> Planet) \<Rightarrow> (ref \<Rightarrow> Planet)" where
  "SolarSystem_update dt self h = foldl (update_body dt self) h (bodies self)"

subsection \<open>Universe\<close>

definition Universe_init :: Universe where
  "Universe_init = \<lparr>chunk_size = 2000, planets = (\<lambda>k. None)\<rparr>"

text \<open>
  \<^verbatim>\<open>get_chunk\<close> (line 150): \<^verbatim>\<open>//\<close> is floor division and raises on a zero
  divisor; \<^verbatim>\<open>int\<close> of the resulting integral float is that integer.
\<close>

definition get_chunk :: "Universe \<Rightarrow> Vec3 \<Rightarrow> py_error + chunk" where
  "get_chunk self p =
     (if chunk_size self = 0 then Inl ZeroDivisionError
      else Inr (\<lfloor>vx p / of_int (chunk_size self)\<rfloor>,
                \<lfloor>vy p / of_int (chunk_size self)\<rfloor>,
                \<lfloor>vz p / of_int (chunk_size self)\<rfloor>))"

text \<open>
  The body of the loop of \<^verbatim>\<open>generate_chunk\<close> (lines 159-164). \<open>proc_args\<close> is
  lines 159-163: seven draws, of which the first four give the position and the radius
  that the constructor gets; the three \<^verbatim>\<open>random.random()\<close> draws of line 163 advance
  the generator, but their values are not passed to the planet, whose colour comes from
  the literal \<^verbatim>\<open>'#4488ff'\<close>. \<open>gen_planet\<close> adds the constructor call of line 164.
\<close>

definition proc_args :: "'g stdlib \<Rightarrow> int \<Rightarrow> chunk \<Rightarrow> 'g \<Rightarrow> (Vec3 \<times> jdict) \<times> 'g" where
  "proc_args L cs key g0 =
     (case key of (cx, cy, cz) \<Rightarrow>
        (let (a, g1) = random_randint L 0 cs g0;
             (b, g2) = random_randint L 0 cs g1;
             (c, g3) = random_randint L 0 cs g2;
             (r, g4) = random_randint L 80 250 g3;
             (c1, g5) = random_random L g4;
             (c2, g6) = random_random L g5;
             (c3, g7) = random_random L g6
         in ((Vec3 (of_int (cx * cs + a)) (of_int (cy * cs + b)) (of_int (cz * cs + c)),
              JDict (Some ''proc'') None (Some (JParams (Some (of_int r)) None None None None))
                    (Some (JColors (Some ''#4488ff''))) None None None None None None None),
             g7)))"

definition gen_planet :: "'g stdlib \<Rightarrow> chunk \<Rightarrow> 'g World \<Rightarrow> (py_error + ref) \<times> 'g World" where
  "gen_planet L key w =
     (case proc_args L (chunk_size (universe w)) key (rng w) of
        ((p, data), g) \<Rightarrow> Planet_init L p data None (w\<lparr>rng := g\<rparr>))"

fun gen_planets ::
  "'g stdlib \<Rightarrow> chunk \<Rightarrow> nat \<Rightarrow> ref list \<Rightarrow> 'g World \<Rightarrow> (py_error + ref list) \<times> 'g World" where
  "gen_planets L key 0 chunk_planets w = (Inr chunk_planets, w)"
| "gen_planets L key (Suc n) chunk_planets w =
     (case gen_planet L key w of
        (Inl e, w') \<Rightarrow> (Inl e, w')
      | (Inr r, w') \<Rightarrow> gen_planets L key n (chunk_planets @ [r]) w')"

text \<open>\<^verbatim>\<open>generate_chunk\<close> (lines 152-165); \<^verbatim>\<open>range(n)\<close> is empty for \<open>n \<le> 0\<close>.\<close>

definition generate_chunk :: "'g stdlib \<Rightarrow> chunk \<Rightarrow> 'g World \<Rightarrow> py_error option \<times> 'g World" where
  "generate_chunk L chunk_key w =
     (if planets (universe w) chunk_key \<noteq> None then (None, w)
      else
        (let g0 = random_seed L (hash_tuple L chunk_key);
             (num_planets, g1) = random_randint L 0 2 g0
         in case gen_planets L chunk_key (nat num_planets) []
                   (w\<lparr>rng := g1, gen_log := gen_log w @ [chunk_key]\<rparr>) of
              (Inl e, w') \<Rightarrow> (Some e, w')
            | (Inr chunk_planets, w') \<Rightarrow>
                (None, w'\<lparr>universe := (universe w')
                            \<lparr>planets := (planets (universe w'))(chunk_key \<mapsto> chunk_planets)\<rparr>\<rparr>)))"

text \<open>\<^verbatim>\<open>get_active_planets\<close> (lines 167-175): the 27 keys in the order of the three loops.\<close>

definition neighbourhood :: "chunk \<Rightarrow> chunk list" where
  "neighbourhood c =
     (case c of (cx, cy, cz) \<Rightarrow>
        concat (map (\<lambda>x. concat (map (\<lambda>y. map (\<lambda>z. (x, y, z)) [cz - 1, cz, cz + 1])
                                      [cy - 1, cy, cy + 1]))
                    [cx - 1, cx, cx + 1]))"

fun active_loop ::
  "'g stdlib \<Rightarrow> chunk list \<Rightarrow> ref list \<Rightarrow> 'g World \<Rightarrow> (py_error + ref list) \<times> 'g World" where
  "active_loop L [] active w = (Inr active, w)"
| "active_loop L (k # ks) active w =
     (case generate_chunk L k w of
        (Some e, w') \<Rightarrow> (Inl e, w')
      | (None, w') \<Rightarrow>
          (case planets (universe w') k of
             None \<Rightarrow> (Inl KeyError, w')
           | Some bs \<Rightarrow> active_loop L ks (active @ bs) w'))"

definition get_active_planets ::
  "'g stdlib \<Rightarrow> Vec3 \<Rightarrow> 'g World \<Rightarrow> (py_error + ref list) \<times> 'g World" where
  "get_active_planets L player_pos w =
     (case get_chunk (universe w) player_pos of
        Inl e \<Rightarrow> (Inl e, w)
      | Inr c \<Rightarrow> active_loop L (neighbourhood c) [] w)"

text \<open>
  A run of the main loop's queries (line 447), one observer position after the other;
  an exception ends the run, as it ends the process.
\<close>

fun queries :: "'g stdlib \<Rightarrow> Vec3 list \<Rightarrow> 'g World \<Rightarrow> 'g World" where
  "queries L [] w = w"
| "queries L (p # ps) w =
     (case get_active_planets L p w of
        (Inl e, w') \<Rightarrow> w'
      | (Inr active, w') \<Rightarrow> queries L ps w')"

subsection \<open>Saucer\<close>

record Keys =
  K_SPACE :: bool
  K_w :: bool
  K_s :: bool
  K_a :: bool
  K_d :: bool
  K_LEFT :: bool
  K_RIGHT :: bool
  K_LCTRL :: bool
  K_c :: bool

definition radians :: "real \<Rightarrow> real" where
  "radians d = d * pi / 180"

definition get_forward_vector :: "Saucer \<Rightarrow> Vec3" where
  "get_forward_vector self =
     (let rad_yaw = radians (yaw self);
          rad_pitch = radians (pitch self)
      in Vec3 (sin rad_yaw * cos rad_pitch) (- sin rad_pitch) (- cos rad_yaw * cos rad_pitch))"

text \<open>
  Lines 212-240 of \<^verbatim>\<open>Saucer.update\<close>, statement group by statement group: thrust
  and clamp (213-217), yaw (219-220), lift (222-223), pitch (225-226), integration
  (228-230), camera (233-240).
\<close>

definition ctl_thrust :: "Keys \<Rightarrow> Saucer \<Rightarrow> Saucer" where
  "ctl_thrust keys self =
     self\<lparr>speed := max (- 15)
                    (min (if K_w keys then speed self + 0.85
                          else if K_s keys then speed self - 0.95
                          else speed self * 0.96)
                         (max_speed self))\<rparr>"

definition ctl_yaw :: "Keys \<Rightarrow> Saucer \<Rightarrow> Saucer" where
  "ctl_yaw keys self =
     self\<lparr>yaw := (if K_d keys \<or> K_RIGHT keys
                   then (if K_a keys \<or> K_LEFT keys then yaw self + 3.2 else yaw self) - 3.2
                   else (if K_a keys \<or> K_LEFT keys then yaw self + 3.2 else yaw self))\<rparr>"

definition ctl_lift :: "Keys \<Rightarrow> Saucer \<Rightarrow> Saucer" where
  "ctl_lift keys self =
     self\<lparr>s_pos := Vec3 (vx (s_pos self))
                        (if K_LCTRL keys \<or> K_c keys
                         then (if K_SPACE keys then vy (s_pos self) + 2.5 else vy (s_pos self)) - 2.5
                         else (if K_SPACE keys then vy (s_pos self) + 2.5 else vy (s_pos self)))
                        (vz (s_pos self))\<rparr>"

definition ctl_pitch :: "real \<Rightarrow> Saucer \<Rightarrow> Saucer" where
  "ctl_pitch wheel_delta self =
     self\<lparr>pitch := max (- 78) (min 78 (pitch self - wheel_delta * 4.5))\<rparr>"

definition ctl_move :: "Saucer \<Rightarrow> Saucer" where
  "ctl_move self =
     self\<lparr>s_vel := Vec3_mul (get_forward_vector self) (speed self),
          s_pos := Vec3_add (s_pos self) (Vec3_mul (get_forward_vector self) (speed self))\<rparr>"

definition ctl_camera :: "real \<Rightarrow> real \<Rightarrow> bool \<Rightarrow> Saucer \<Rightarrow> Saucer" where
  "ctl_camera mouse_dx mouse_dy right_held self =
     (if right_held then
        self\<lparr>cam_yaw := cam_yaw self + mouse_dx * 0.28,
             cam_pitch := max (- 68) (min 68 (cam_pitch self - mouse_dy * 0.26))\<rparr>
      else
        self\<lparr>cam_yaw := lerp_angle (cam_yaw self) (yaw self + 180) 0.12,
             cam_pitch := lerp (cam_pitch self) 18 0.09\<rparr>)"

definition Saucer_controls :: "Keys \<Rightarrow> real \<Rightarrow> real \<Rightarrow> bool \<Rightarrow> real \<Rightarrow> Saucer \<Rightarrow> Saucer" where
  "Saucer_controls keys mouse_dx mouse_dy right_held wheel_delta self =
     ctl_camera mouse_dx mouse_dy right_held
       (ctl_move (ctl_pitch wheel_delta (ctl_lift keys (ctl_yaw keys (ctl_thrust keys self)))))"

text \<open>The body of the loop of lines 243-256, for one planet \<open>p\<close>.\<close>

definition Saucer_collide :: "(ref \<Rightarrow> Planet) \<Rightarrow> Saucer \<Rightarrow> ref \<Rightarrow> Saucer" where
  "Saucer_collide h self p =
     (let dist = Vec3_dist (s_pos self) (pos (h p))
      in if dist < radius (h p) + 23 then
           (if \<bar>speed self\<bar> < 11 then
              self\<lparr>landed_on := Some p,
                   speed := 0,
                   s_vel := Vec3 0 0 0,
                   s_pos := Vec3_add (pos (h p))
                              (Vec3_mul (Vec3_normalize (Vec3_sub (s_pos self) (pos (h p))))
                                        (radius (h p) + 7)),
                   pitch := - 82\<rparr>
            else
              self\<lparr>ui_message := ''WARNING: Too fast! Bouncing off atmosphere!'',
                   s_pos := Vec3_sub (s_pos self) (Vec3_mul (s_vel self) 2),
                   speed := speed self * 0.3\<rparr>)
         else self)"

text \<open>The loop of line 243: every planet of the list, in order.\<close>

definition Saucer_collisions :: "(ref \<Rightarrow> Planet) \<Rightarrow> ref list \<Rightarrow> Saucer \<Rightarrow> Saucer" where
  "Saucer_collisions h ps self = foldl (Saucer_collide h) self ps"

text \<open>\<^verbatim>\<open>Saucer.update\<close> (lines 203-256).\<close>

definition Saucer_update ::
  "Keys \<Rightarrow> (ref \<Rightarrow> Planet) \<Rightarrow> ref list \<Rightarrow> real \<Rightarrow> real \<Rightarrow> bool \<Rightarrow> real \<Rightarrow> Saucer \<Rightarrow> Saucer" where
  "Saucer_update keys h ps mouse_dx mouse_dy right_held wheel_delta self =
     (case landed_on self of
        Some l \<Rightarrow>
          (let s1 = self\<lparr>ui_message := ''Landed on '' @ name (h l) @ '' - SPACE to takeoff''\<rparr>
           in if K_SPACE keys then
                (let s2 = s1\<lparr>landed_on := None, speed := 10\<rparr>
                 in s2\<lparr>s_vel := Vec3_mul (get_forward_vector s2) (speed s2)\<rparr>)
              else s1)
      | None \<Rightarrow>
          Saucer_collisions h ps
            (Saucer_controls keys mouse_dx mouse_dy right_held wheel_delta self))"

subsection \<open>Loading editor archives\<close>

text \<open>
  The loaders mutate module globals and the heap, and an exception does not undo what
  was done before it: each loader returns the exception it ended with (\<open>None\<close>: it
  returned normally) together with the state at that point.
\<close>

text \<open>Python's \<^verbatim>\<open>xs[i]\<close>: a negative index counts from the end.\<close>

definition py_index :: "'a list \<Rightarrow> int \<Rightarrow> py_error + 'a" where
  "py_index xs i =
     (if 0 \<le> i \<and> i < int (length xs) then Inr (xs ! nat i)
      else if i < 0 \<and> - int (length xs) \<le> i then Inr (xs ! nat (int (length xs) + i))
      else Inl IndexError)"

text \<open>\<^verbatim>\<open>load_single_planet\<close> (lines 329-337).\<close>

definition load_single_planet :: "'g stdlib \<Rightarrow> zip \<Rightarrow> 'g World \<Rightarrow> py_error option \<times> 'g World" where
  "load_single_planet L zip_obj w =
     (case zip_read zip_obj ''planet_data.json'' of
        Inl e \<Rightarrow> (Some e, w)
      | Inr c \<Rightarrow>
          (case json_loads c of
             Inl e \<Rightarrow> (Some e, w)
           | Inr data \<Rightarrow>
               (let heightmap_bytes = zip_obj ''heightmap.png'';
                    (rx, g1) = random_randint L 800 1400 (rng w);
                    (ry, g2) = random_randint L 80 300 g1;
                    (rz, g3) = random_randint L 800 1400 g2;
                    p = Vec3_add (s_pos (player w)) (Vec3 (of_int rx) (of_int ry) (of_int rz))
                in case Planet_init L p data heightmap_bytes (w\<lparr>rng := g3\<rparr>) of
                     (Inl e, w1) \<Rightarrow> (Some e, w1)
                   | (Inr planet, w1) \<Rightarrow>
                       (let sys = add_body (heap w1) (SolarSystem_init (name (heap w1 planet))) planet
                        in (None,
                            w1\<lparr>custom_systems := custom_systems w1 @ [sys],
                               player := (player w1)
                                 \<lparr>ui_message := ''Loaded planet: '' @ name (heap w1 planet)\<rparr>\<rparr>)))))"

text \<open>
  Lines 354-355: the parent of a body entry, looked up in the bodies added so far.
  The guard bounds the index from above only.
\<close>

definition resolve_parent :: "jdict \<Rightarrow> ref list \<Rightarrow> py_error + ref option" where
  "resolve_parent info bs =
     (case j_parentId info of
        None \<Rightarrow> Inr None
      | Some i \<Rightarrow>
          (if i < int (length bs) then
             (case py_index bs i of Inl e \<Rightarrow> Inl e | Inr b \<Rightarrow> Inr (Some b))
           else Inr None))"

text \<open>The body of the loop of \<^verbatim>\<open>load_solar_system\<close> (lines 345-356), for one entry.\<close>

definition load_body ::
  "'g stdlib \<Rightarrow> zip \<Rightarrow> jdict \<Rightarrow> SolarSystem \<Rightarrow> 'g World \<Rightarrow> py_error option \<times> SolarSystem \<times> 'g World" where
  "load_body L zip_obj info sys w =
     (case j_file info of
        None \<Rightarrow> (Some KeyError, sys, w)
      | Some f \<Rightarrow>
          (case zip_obj f of
             None \<Rightarrow> (None, sys, w)
           | Some c \<Rightarrow>
               (case ZipFile c of
                  Inl e \<Rightarrow> (Some e, sys, w)
                | Inr body_zip \<Rightarrow>
                    (case zip_read body_zip ''planet_data.json'' of
                       Inl e \<Rightarrow> (Some e, sys, w)
                     | Inr pc \<Rightarrow>
                         (case json_loads pc of
                            Inl e \<Rightarrow> (Some e, sys, w)
                          | Inr data \<Rightarrow>
                              (let h_bytes = body_zip ''heightmap.png'';
                                   p = Vec3_add (center_pos sys)
                                         (Vec3 (case j_orbitDistance info of None \<Rightarrow> 300 | Some d \<Rightarrow> d) 0 0)
                               in case Planet_init L p data h_bytes w of
                                    (Inl e, w1) \<Rightarrow> (Some e, sys, w1)
                                  | (Inr planet, w1) \<Rightarrow>
                                      (let h1 = (heap w1)(planet := (heap w1 planet)
                                                  \<lparr>orbitDistance := (case j_orbitDistance info of
                                                                       None \<Rightarrow> 0 | Some d \<Rightarrow> d),
                                                   orbitSpeed := (case j_orbitSpeed info of
                                                                    None \<Rightarrow> 0.2 | Some v \<Rightarrow> v)\<rparr>)
                                       in case resolve_parent info (bodies sys) of
                                            Inl e \<Rightarrow> (Some e, sys, w1\<lparr>heap := h1\<rparr>)
                                          | Inr par \<Rightarrow>
                                              (let h2 = (case par of
                                                           None \<Rightarrow> h1
                                                         | Some b \<Rightarrow> h1(planet := (h1 planet)\<lparr>parent := Some b\<rparr>))
                                               in (None, add_body h2 sys planet, w1\<lparr>heap := h2\<rparr>)))))))))"

fun load_bodies ::
  "'g stdlib \<Rightarrow> zip \<Rightarrow> jdict list \<Rightarrow> SolarSystem \<Rightarrow> 'g World \<Rightarrow> py_error option \<times> SolarSystem \<times> 'g World" where
  "load_bodies L zip_obj [] sys w = (None, sys, w)"
| "load_bodies L zip_obj (info # infos) sys w =
     (case load_body L zip_obj info sys w of
        (Some e, sys', w') \<Rightarrow> (Some e, sys', w')
      | (None, sys', w') \<Rightarrow> load_bodies L zip_obj infos sys' w')"

text \<open>\<^verbatim>\<open>load_solar_system\<close> (lines 339-359).\<close>

definition load_solar_system :: "'g stdlib \<Rightarrow> zip \<Rightarrow> 'g World \<Rightarrow> py_error option \<times> 'g World" where
  "load_solar_system L zip_obj w =
     (case zip_read zip_obj ''system_data.json'' of
        Inl e \<Rightarrow> (Some e, w)
      | Inr c \<Rightarrow>
          (case json_loads c of
             Inl e \<Rightarrow> (Some e, w)
           | Inr manifest \<Rightarrow>
               (let sys = (SolarSystem_init (case j_name manifest of
                                               None \<Rightarrow> ''Imported System'' | Some n \<Rightarrow> n))
                            \<lparr>center_pos := Vec3_copy (s_pos (player w))\<rparr>
                in case load_bodies L zip_obj
                          (case j_bodies manifest of None \<Rightarrow> [] | Some bs \<Rightarrow> bs) sys w of
                     (Some e, sys', w') \<Rightarrow> (Some e, w')
                   | (None, sys', w') \<Rightarrow>
                       (None,
                        w'\<lparr>custom_systems := custom_systems w' @ [sys'],
                           player := (player w')
                             \<lparr>ui_message := ''Loaded system: '' @ sys_name sys'\<rparr>\<rparr>))))"

text \<open>The inner loop body of \<^verbatim>\<open>load_galaxy\<close> (lines 367-371), for one body.\<close>

definition galaxy_body ::
  "'g stdlib \<Rightarrow> jdict \<Rightarrow> SolarSystem \<Rightarrow> 'g World \<Rightarrow> py_error option \<times> SolarSystem \<times> 'g World" where
  "galaxy_body L body_data sys w =
     (let p = Vec3_add (center_pos sys)
                (Vec3 (case j_orbitDistance body_data of None \<Rightarrow> 0 | Some d \<Rightarrow> d) 0 0)
      in case Planet_init L p body_data None w of
           (Inl e, w1) \<Rightarrow> (Some e, sys, w1)
         | (Inr planet, w1) \<Rightarrow>
             (let h1 = (heap w1)(planet := (heap w1 planet)
                         \<lparr>orbitDistance := (case j_orbitDistance body_data of None \<Rightarrow> 0 | Some d \<Rightarrow> d),
                          orbitSpeed := (case j_orbitSpeed body_data of None \<Rightarrow> 0.2 | Some v \<Rightarrow> v)\<rparr>)
              in (None, add_body h1 sys planet, w1\<lparr>heap := h1\<rparr>)))"

fun galaxy_bodies ::
  "'g stdlib \<Rightarrow> jdict list \<Rightarrow> SolarSystem \<Rightarrow> 'g World \<Rightarrow> py_error option \<times> SolarSystem \<times> 'g World" where
  "galaxy_bodies L [] sys w = (None, sys, w)"
| "galaxy_bodies L (body_data # rest) sys w =
     (case galaxy_body L body_data sys w of
        (Some e, sys', w') \<Rightarrow> (Some e, sys', w')
      | (None, sys', w') \<Rightarrow> galaxy_bodies L rest sys' w')"

text \<open>The outer loop body (lines 364-372), for one system: the append is its last step.\<close>

definition galaxy_system :: "'g stdlib \<Rightarrow> jdict \<Rightarrow> 'g World \<Rightarrow> py_error option \<times> 'g World" where
  "galaxy_system L sys_data w =
     (let (a, g1) = random_randint L (- 2000) 2000 (rng w);
          (b, g2) = random_randint L (- 2000) 2000 g1;
          sys = (SolarSystem_init (case j_name sys_data of None \<Rightarrow> ''Galaxy System'' | Some n \<Rightarrow> n))
                  \<lparr>center_pos := Vec3_add (s_pos (player w)) (Vec3 (of_int a) 0 (of_int b))\<rparr>
      in case galaxy_bodies L (case j_bodies sys_data of None \<Rightarrow> [] | Some bs \<Rightarrow> bs) sys
                (w\<lparr>rng := g2\<rparr>) of
           (Some e, sys', w') \<Rightarrow> (Some e, w')
         | (None, sys', w') \<Rightarrow> (None, w'\<lparr>custom_systems := custom_systems w' @ [sys']\<rparr>))"

fun galaxy_systems :: "'g stdlib \<Rightarrow> jdict list \<Rightarrow> 'g World \<Rightarrow> py_error option \<times> 'g World" where
  "galaxy_systems L [] w = (None, w)"
| "galaxy_systems L (sys_data # rest) w =
     (case galaxy_system L sys_data w of
        (Some e, w') \<Rightarrow> (Some e, w')
      | (None, w') \<Rightarrow> galaxy_systems L rest w')"

text \<open>\<^verbatim>\<open>load_galaxy\<close> (lines 361-373).\<close>

definition load_galaxy :: "'g stdlib \<Rightarrow> zip \<Rightarrow> 'g World \<Rightarrow> py_error option \<times> 'g World" where
  "load_galaxy L zip_obj w =
     (case zip_read zip_obj ''galaxy_data.json'' of
        Inl e \<Rightarrow> (Some e, w)
      | Inr c \<Rightarrow>
          (case json_loads c of
             Inl e \<Rightarrow> (Some e, w)
           | Inr galaxy \<Rightarrow>
               (case galaxy_systems L
                       (take 4 (case j_systems galaxy of None \<Rightarrow> [] | Some ss \<Rightarrow> ss)) w of
                  (Some e, w') \<Rightarrow> (Some e, w')
                | (None, w') \<Rightarrow>
                    (None,
                     w'\<lparr>player := (player w')
                          \<lparr>ui_message := ''Loaded galaxy chunk: ''
                             @ (case j_name galaxy of None \<Rightarrow> ''Galaxy'' | Some n \<Rightarrow> n)\<rparr>\<rparr>))))"

text \<open>
  \<^verbatim>\<open>load_editor_zip\<close> (lines 310-327). The argument is what the file dialog gave:
  \<open>None\<close> when it was cancelled, else the bytes of the chosen file. The
  \<^verbatim>\<open>try\<close> block is \<open>dispatch\<close>; the \<^verbatim>\<open>except\<close> clause writes the status message.
\<close>

definition dispatch :: "'g stdlib \<Rightarrow> content \<Rightarrow> 'g World \<Rightarrow> py_error option \<times> 'g World" where
  "dispatch L file w =
     (case ZipFile file of
        Inl e \<Rightarrow> (Some e, w)
      | Inr z \<Rightarrow>
          (if z ''galaxy_data.json'' \<noteq> None then load_galaxy L z w
           else if z ''system_data.json'' \<noteq> None then load_solar_system L z w
           else if z ''planet_data.json'' \<noteq> None then load_single_planet L z w
           else (None, w\<lparr>player := (player w)\<lparr>ui_message := ''Unknown editor file format''\<rparr>\<rparr>)))"

definition load_editor_zip :: "'g stdlib \<Rightarrow> content option \<Rightarrow> 'g World \<Rightarrow> 'g World" where
  "load_editor_zip L file_path w =
     (case file_path of
        None \<Rightarrow> w
      | Some file \<Rightarrow>
          (case dispatch L file w of
             (None, w') \<Rightarrow> w'
           | (Some e, w') \<Rightarrow>
               w'\<lparr>player := (player w')\<lparr>ui_message := ''Load error: '' @ take 40 (exc_str L e)\<rparr>\<rparr>))"

subsection \<open>Chunk cells\<close>

text \<open>
  The cell of a chunk coordinate, in the words of the specification: the axis-aligned
  cube of side \<open>cs\<close> whose lower corner is the coordinate times \<open>cs\<close>, lower faces
  included and upper faces excluded. \<open>crossing\<close> is the step an axis takes when a
  coordinate \<open>x\<close> has left the cell \<open>c\<close> below (\<open>- 1\<close>), above (\<open>1\<close>) or not at all.
\<close>

definition in_cell :: "int \<Rightarrow> chunk \<Rightarrow> Vec3 \<Rightarrow> bool" where
  "in_cell cs c p =
     (case c of (cx, cy, cz) \<Rightarrow>
        of_int (cx * cs) \<le> vx p \<and> vx p < of_int ((cx + 1) * cs) \<and>
        of_int (cy * cs) \<le> vy p \<and> vy p < of_int ((cy + 1) * cs) \<and>
        of_int (cz * cs) \<le> vz p \<and> vz p < of_int ((cz + 1) * cs))"

definition crossing :: "int \<Rightarrow> int \<Rightarrow> real \<Rightarrow> int" where
  "crossing cs c x =
     (if x < of_int (c * cs) then - 1 else if of_int ((c + 1) * cs) \<le> x then 1 else 0)"

subsection \<open>Observers and example data\<close>

text \<open>
  \<open>suns_of\<close>: the Sun-type bodies among those added. \<open>parent_pos_of\<close>: the position
  that line 136 passes to \<^verbatim>\<open>update_orbit\<close>. \<open>lands\<close>: the landing condition of lines
  245-246 for a craft state; \<open>snap\<close>: the position line 251 assigns.
\<close>

definition suns_of :: "(ref \<Rightarrow> Planet) \<Rightarrow> ref list \<Rightarrow> ref list" where
  "suns_of h bs = filter (\<lambda>b. kind (h b) = ''sun'') bs"

definition parent_pos_of :: "SolarSystem \<Rightarrow> (ref \<Rightarrow> Planet) \<Rightarrow> ref \<Rightarrow> Vec3" where
  "parent_pos_of self h pr = (if pr \<in> set (bodies self) then pos (h pr) else center_pos self)"

definition snap :: "(ref \<Rightarrow> Planet) \<Rightarrow> Saucer \<Rightarrow> ref \<Rightarrow> Vec3" where
  "snap h c p =
     Vec3_add (pos (h p))
       (Vec3_mul (Vec3_normalize (Vec3_sub (s_pos c) (pos (h p)))) (radius (h p) + 7))"

definition lands :: "(ref \<Rightarrow> Planet) \<Rightarrow> Saucer \<Rightarrow> ref \<Rightarrow> bool" where
  "lands h c p = (Vec3_dist (s_pos c) (pos (h p)) < radius (h p) + 23 \<and> \<bar>speed c\<bar> < 11)"

text \<open>
  Example data. \<open>rock p r\<close> is a planet at \<open>p\<close> of radius \<open>r\<close> with the other fields as
  the constructor leaves them; \<open>two_suns\<close> holds a sun at \<open>x = 1 + r\<close> under every
  reference \<open>r\<close>.
\<close>

definition rock :: "Vec3 \<Rightarrow> real \<Rightarrow> Planet" where
  "rock p r =
     \<lparr>pos = p, name = ''rock'', kind = ''planet'', radius = r, orbitDistance = 0,
      orbitSpeed = 0.2, orbitAngle = 0, parent = None, color = (0, 0, 0), textured = False,
      hasRings = False, ringDiameter = 1.8, ringColorInner = ''#FFD700'',
      ringColorOuter = ''#DAA520''\<rparr>"

definition two_suns :: "ref \<Rightarrow> Planet" where
  "two_suns r = (rock (Vec3 (1 + of_nat r) 0 0) 100)\<lparr>kind := ''sun''\<rparr>"

text \<open>A sun at the origin (reference 0) and a body five units above it that orbits it.\<close>

definition tilted :: "ref \<Rightarrow> Planet" where
  "tilted r =
     (if r = 0 then (rock (Vec3 0 0 0) 100)\<lparr>kind := ''sun''\<rparr>
      else (rock (Vec3 10 5 0) 10)\<lparr>orbitDistance := 10, orbitSpeed := 0, parent := Some 0\<rparr>)"

definition tilted_system :: SolarSystem where
  "tilted_system = \<lparr>sys_name = ''T'', bodies = [0, 1], center_pos = Vec3 0 0 0\<rparr>"

definition no_keys :: Keys where
  "no_keys = \<lparr>K_SPACE = False, K_w = False, K_s = False, K_a = False, K_d = False,
              K_LEFT = False, K_RIGHT = False, K_LCTRL = False, K_c = False\<rparr>"

text \<open>A craft in flight on the z axis, nose along \<open>- z\<close>, camera already behind it.\<close>

definition craft :: "real \<Rightarrow> real \<Rightarrow> ref option \<Rightarrow> real \<Rightarrow> Saucer" where
  "craft z v l q =
     \<lparr>s_pos = Vec3 0 0 z, s_vel = Vec3 0 0 0, yaw = 0, pitch = q, speed = v, max_speed = 42,
      cam_yaw = 180, cam_pitch = 18, cam_dist = 52, landed_on = l, ui_message = []\<rparr>"

text \<open>Planets of radius 100 on the z axis: reference \<open>r\<close> is centred at \<open>z = 10 r\<close>.\<close>

definition row_of_rocks :: "ref \<Rightarrow> Planet" where
  "row_of_rocks r = rock (Vec3 0 0 (10 * of_nat r)) 100"

text \<open>
  \<open>ocean_of\<close>: the colour string of a manifest when it has one. \<open>texture_ok\<close>: there
  is no height map, or one of zero bytes (which is not decoded), or one that decodes.
\<close>

definition ocean_of :: "jdict \<Rightarrow> string option" where
  "ocean_of data = (case j_colors data of None \<Rightarrow> None | Some c \<Rightarrow> c_ocean c)"

definition texture_ok :: "content option \<Rightarrow> bool" where
  "texture_ok heightmap_bytes =
     (heightmap_bytes = None \<or> heightmap_bytes = Some Empty \<or> heightmap_bytes = Some Png)"

text \<open>
  More example data: the empty manifest, a manifest with just an ocean colour, a
  library whose generator always draws the low end, and a process state with nothing
  generated or loaded.
\<close>

definition jempty :: jdict where
  "jempty = JDict None None None None None None None None None None None"

definition with_ocean :: "string \<Rightarrow> jdict" where
  "with_ocean h = JDict None None None (Some (JColors (Some h))) None None None None None None None"

definition fixed_lib :: "unit stdlib" where
  "fixed_lib =
     \<lparr>hash_tuple = (\<lambda>k. 0), random_seed = (\<lambda>a. ()), random_randint = (\<lambda>a b g. (a, g)),
      random_random = (\<lambda>g. (0, g)), exc_str = (\<lambda>e. ''error'')\<rparr>"

definition empty_world :: "unit World" where
  "empty_world =
     \<lparr>rng = (), heap = (\<lambda>r. rock (Vec3 0 0 0) 100), next_ref = 0, universe = Universe_init,
      player = craft 150 0 None 0, custom_systems = [], gen_log = []\<rparr>"

text \<open>
  Example archives: a planet archive with an empty manifest, and a system archive with
  one body entry that names it and carries the parent index \<open>i\<close>.
\<close>

definition planet_zip :: zip where
  "planet_zip = (\<lambda>n. None)(''planet_data.json'' \<mapsto> Json jempty)"

definition body_entry :: "string \<Rightarrow> int option \<Rightarrow> jdict" where
  "body_entry f i = JDict None None None None None None (Some f) i None None None"

definition system_zip :: "int option \<Rightarrow> zip" where
  "system_zip i =
     (\<lambda>n. None)(''system_data.json'' \<mapsto>
                   Json (JDict None None None None None None None None None
                           (Some [body_entry ''a.zip'' i]) None),
                 ''a.zip'' \<mapsto> Archive planet_zip)"

subsection \<open>Observers of generation and of the cache\<close>

text \<open>
  \<open>fresh\<close>: a process state with a new \<open>Universe\<close> and everything else arbitrary.
  \<open>chunk_bodies\<close>: the planets a state holds for a chunk, as values. \<open>proc_planet\<close>
  and \<open>proc_planets\<close>: the planet values that the loop of \<open>generate_chunk\<close> builds
  from a generator state, without the heap; \<open>chunk_values\<close>: those values for a
  chunk key, from the seed of the key and the chunk size 2000.
\<close>

definition fresh ::
  "'g \<Rightarrow> (ref \<Rightarrow> Planet) \<Rightarrow> ref \<Rightarrow> Saucer \<Rightarrow> SolarSystem list \<Rightarrow> 'g World" where
  "fresh g h n pl cs =
     \<lparr>rng = g, heap = h, next_ref = n, universe = Universe_init, player = pl,
      custom_systems = cs, gen_log = []\<rparr>"

definition chunk_bodies :: "'g World \<Rightarrow> chunk \<Rightarrow> Planet list" where
  "chunk_bodies w k = (case planets (universe w) k of None \<Rightarrow> [] | Some rs \<Rightarrow> map (heap w) rs)"

definition proc_planet :: "'g stdlib \<Rightarrow> int \<Rightarrow> chunk \<Rightarrow> 'g \<Rightarrow> Planet \<times> 'g" where
  "proc_planet L cs key g0 =
     (case proc_args L cs key g0 of
        ((p, data), g) \<Rightarrow>
          (Planet_fields p data False (fst (random_random L g)) (68 / 255, 136 / 255, 1),
           snd (random_random L g)))"

fun proc_planets :: "'g stdlib \<Rightarrow> int \<Rightarrow> chunk \<Rightarrow> nat \<Rightarrow> 'g \<Rightarrow> Planet list \<times> 'g" where
  "proc_planets L cs key 0 g = ([], g)"
| "proc_planets L cs key (Suc n) g =
     (case proc_planet L cs key g of
        (v, g') \<Rightarrow> (case proc_planets L cs key n g' of (vs, g'') \<Rightarrow> (v # vs, g'')))"

definition chunk_values :: "'g stdlib \<Rightarrow> chunk \<Rightarrow> Planet list" where
  "chunk_values L key =
     (case random_randint L 0 2 (random_seed L (hash_tuple L key)) of
        (num_planets, g1) \<Rightarrow> fst (proc_planets L 2000 key (nat num_planets) g1))"

text \<open>
  \<open>cached_refs\<close>: the references cached for a chunk. \<open>cache_ok\<close>: every cached key
  was generated exactly once. \<open>extends w w'\<close>: the state \<open>w'\<close> keeps every cache
  entry of \<open>w\<close>, the chunk size, every object allocated in \<open>w\<close>, and \<open>cache_ok\<close>.
  \<open>max_lib\<close> is a library whose generator always draws the high end.
\<close>

definition cached_refs :: "'g World \<Rightarrow> chunk \<Rightarrow> ref list" where
  "cached_refs w k = (case planets (universe w) k of None \<Rightarrow> [] | Some rs \<Rightarrow> rs)"

definition cache_ok :: "'g World \<Rightarrow> bool" where
  "cache_ok w = (distinct (gen_log w) \<and> set (gen_log w) = dom (planets (universe w)))"

definition extends :: "'g World \<Rightarrow> 'g World \<Rightarrow> bool" where
  "extends w w' =
     ((\<forall>k rs. planets (universe w) k = Some rs \<longrightarrow> planets (universe w') k = Some rs) \<and>
      chunk_size (universe w') = chunk_size (universe w) \<and>
      next_ref w \<le> next_ref w' \<and> (\<forall>r<next_ref w. heap w' r = heap w r) \<and>
      (cache_ok w \<longrightarrow> cache_ok w'))"

definition max_lib :: "unit stdlib" where
  "max_lib =
     \<lparr>hash_tuple = (\<lambda>k. 0), random_seed = (\<lambda>a. ()), random_randint = (\<lambda>a b g. (b, g)),
      random_random = (\<lambda>g. (1 / 2, g)), exc_str = (\<lambda>e. ''error'')\<rparr>"

subsection \<open>What an archive describes\<close>

text \<open>
  A group is summarised by its name and its number of bodies. \<open>described\<close> lists, for
  the bytes of a chosen file, the summaries of the groups that an import of it is to
  append, in order: for a galaxy archive one per system among the first four, with one
  body per body descriptor; for a system archive one group with one body per entry
  whose file is in the archive; for a planet archive one group with one body; nothing
  for a file that is no archive, has no known manifest or a manifest that does not
  parse. \<open>imported ds w r w'\<close> says what a loader that ended with \<open>r\<close> made of the
  group list: it appended groups whose summaries are a prefix of \<open>ds\<close> (each group that
  is in the list has all its bodies), and all of \<open>ds\<close> when it returned normally.
\<close>

definition summary :: "SolarSystem \<Rightarrow> string \<times> nat" where
  "summary g = (sys_name g, length (bodies g))"

definition or_nil :: "'a list option \<Rightarrow> 'a list" where
  "or_nil xs = (case xs of None \<Rightarrow> [] | Some l \<Rightarrow> l)"

definition or_name :: "string \<Rightarrow> string option \<Rightarrow> string" where
  "or_name d n = (case n of None \<Rightarrow> d | Some s \<Rightarrow> s)"

definition present :: "zip \<Rightarrow> jdict \<Rightarrow> bool" where
  "present z info = (case j_file info of None \<Rightarrow> False | Some f \<Rightarrow> z f \<noteq> None)"

definition galaxy_group :: "jdict \<Rightarrow> string \<times> nat" where
  "galaxy_group sd = (or_name ''Galaxy System'' (j_name sd), length (or_nil (j_bodies sd)))"

definition galaxy_descr :: "zip \<Rightarrow> (string \<times> nat) list" where
  "galaxy_descr z =
     (case z ''galaxy_data.json'' of
        Some (Json galaxy) \<Rightarrow> map galaxy_group (take 4 (or_nil (j_systems galaxy)))
      | _ \<Rightarrow> [])"

definition system_descr :: "zip \<Rightarrow> (string \<times> nat) list" where
  "system_descr z =
     (case z ''system_data.json'' of
        Some (Json manifest) \<Rightarrow>
          [(or_name ''Imported System'' (j_name manifest),
            length (filter (present z) (or_nil (j_bodies manifest))))]
      | _ \<Rightarrow> [])"

definition planet_descr :: "zip \<Rightarrow> (string \<times> nat) list" where
  "planet_descr z =
     (case z ''planet_data.json'' of
        Some (Json data) \<Rightarrow> [(or_name ''Unknown'' (j_seed data), 1)]
      | _ \<Rightarrow> [])"

definition described :: "content \<Rightarrow> (string \<times> nat) list" where
  "described file =
     (case file of
        Archive z \<Rightarrow>
          (if z ''galaxy_data.json'' \<noteq> None then galaxy_descr z
           else if z ''system_data.json'' \<noteq> None then system_descr z
           else if z ''planet_data.json'' \<noteq> None then planet_descr z
           else [])
      | _ \<Rightarrow> [])"

definition imported ::
  "(string \<times> nat) list \<Rightarrow> 'g World \<Rightarrow> py_error option \<Rightarrow> 'g World \<Rightarrow> bool" where
  "imported ds w r w' =
     (\<exists>new. custom_systems w' = custom_systems w @ new \<and>
            map summary new = take (length new) ds \<and>
            (r = None \<longrightarrow> length new = length ds))"

text \<open>
  Example: a galaxy archive of two systems; the second body of system B has a colour
  string that does not parse.
\<close>

definition named_system :: "string \<Rightarrow> jdict list \<Rightarrow> jdict" where
  "named_system n bs = JDict None None None None None None None None (Some n) (Some bs) None"

definition galaxy_zip :: zip where
  "galaxy_zip =
     (\<lambda>n. None)(''galaxy_data.json'' \<mapsto>
       Json (JDict None None None None None None None None None None
               (Some [named_system ''A'' [jempty, jempty],
                      named_system ''B'' [jempty, with_ocean ''#12'']])))"

section \<open>Properties\<close>

subsection \<open>Chunk coordinates are floors\<close>

lemma floor_div_cell:
  fixes x :: real and cs c :: int
  assumes "0 < cs"
  shows "(\<lfloor>x / of_int cs\<rfloor> = c) = (of_int (c * cs) \<le> x \<and> x < of_int ((c + 1) * cs))"
proof -
  have pos: "(0::real) < of_int cs" using assms by simp
  have "(\<lfloor>x / of_int cs\<rfloor> = c) = (of_int c \<le> x / of_int cs \<and> x / of_int cs < of_int c + 1)"
    by (rule floor_eq_iff)
  also have "\<dots> = (of_int c * of_int cs \<le> x \<and> x < (of_int c + 1) * of_int cs)"
    using pos by (simp add: pos_le_divide_eq pos_divide_less_eq)
  finally show ?thesis by simp
qed

lemma floor_div_step:
  fixes x d :: real and cs :: int
  assumes "0 < cs" and "\<bar>d\<bar> \<le> of_int cs"
  shows "\<lfloor>(x + d) / of_int cs\<rfloor> = \<lfloor>x / of_int cs\<rfloor> + crossing cs \<lfloor>x / of_int cs\<rfloor> (x + d)"
proof -
  define c where "c = \<lfloor>x / of_int cs\<rfloor>"
  have cell: "of_int (c * cs) \<le> x \<and> x < of_int ((c + 1) * cs)"
    using floor_div_cell [OF assms(1), of x c] c_def by simp
  have "of_int ((c + crossing cs c (x + d)) * cs) \<le> x + d \<and>
        x + d < of_int ((c + crossing cs c (x + d) + 1) * cs)"
    using cell assms(2) by (auto simp: crossing_def algebra_simps)
  then show ?thesis
    using floor_div_cell [OF assms(1), of "x + d" "c + crossing cs c (x + d)"] c_def by simp
qed

lemma get_chunk_cell:
  assumes "0 < chunk_size u"
  shows "(get_chunk u p = Inr c) = in_cell (chunk_size u) c p"
  using assms by (cases c) (auto simp: get_chunk_def in_cell_def floor_div_cell)

lemma get_chunk_step:
  assumes "0 < chunk_size u" and "get_chunk u p = Inr (cx, cy, cz)"
    and "\<bar>dx\<bar> \<le> of_int (chunk_size u)" and "\<bar>dy\<bar> \<le> of_int (chunk_size u)"
    and "\<bar>dz\<bar> \<le> of_int (chunk_size u)"
  shows "get_chunk u (Vec3_add p (Vec3 dx dy dz)) =
           Inr (cx + crossing (chunk_size u) cx (vx p + dx),
                cy + crossing (chunk_size u) cy (vy p + dy),
                cz + crossing (chunk_size u) cz (vz p + dz))"
  using assms by (auto simp: get_chunk_def Vec3_add_def floor_div_step)

lemma get_chunk_minus_one: "get_chunk Universe_init (Vec3 (- 1) 0 0) = Inr (- 1, 0, 0)"
  by (simp add: get_chunk_def Universe_init_def)

text \<open>
  Claim C2. For a positive chunk size, \<open>get_chunk\<close> floor-divides each axis: a
  position has chunk \<open>c\<close> exactly when it lies in the cell of \<open>c\<close>, so the chunk is the
  same for all positions of one cell; a translation by at most one chunk size on each
  axis leaves an axis unchanged while the position stays between the cell's faces on
  that axis and moves it by exactly one where a face is crossed; and the position
  \<open>x = - 1\<close> of the chunk size 2000 of a new \<open>Universe\<close> has chunk \<open>x = - 1\<close>, not 0.
\<close>

theorem get_chunk_floor:
  "0 < chunk_size u \<Longrightarrow>
     (\<forall>p c. (get_chunk u p = Inr c) = in_cell (chunk_size u) c p) \<and>
     (\<forall>p cx cy cz dx dy dz.
        get_chunk u p = Inr (cx, cy, cz) \<and> \<bar>dx\<bar> \<le> of_int (chunk_size u) \<and>
        \<bar>dy\<bar> \<le> of_int (chunk_size u) \<and> \<bar>dz\<bar> \<le> of_int (chunk_size u) \<longrightarrow>
        get_chunk u (Vec3_add p (Vec3 dx dy dz)) =
          Inr (cx + crossing (chunk_size u) cx (vx p + dx),
               cy + crossing (chunk_size u) cy (vy p + dy),
               cz + crossing (chunk_size u) cz (vz p + dz))) \<and>
     get_chunk Universe_init (Vec3 (- 1) 0 0) = Inr (- 1, 0, 0)"
  using get_chunk_cell get_chunk_step get_chunk_minus_one by blast

theorem get_chunk_floor_witness:
  "0 < chunk_size Universe_init \<and>
   get_chunk Universe_init (Vec3 (- 1) 0 0) = Inr (- 1, 0, 0) \<and>
   get_chunk Universe_init (Vec3 (- 2000) 1999 2000) = Inr (- 1, 0, 1) \<and>
   get_chunk Universe_init (Vec3_add (Vec3 (- 1) 0 0) (Vec3 1 (- 1) 1999)) = Inr (0, - 1, 0) \<and>
   get_chunk Universe_init (Vec3_add (Vec3 (- 1) 0 0) (Vec3 (- 1999) 1999 0)) = Inr (- 1, 0, 0)"
proof -
  have pos: "0 < chunk_size Universe_init" by (simp add: Universe_init_def)
  note th = get_chunk_floor [OF pos]
  have a: "get_chunk Universe_init (Vec3 (- 1) 0 0) = Inr (- 1, 0, 0)" using th by blast
  have b: "get_chunk Universe_init (Vec3 (- 2000) 1999 2000) = Inr (- 1, 0, 1)"
    using th by (simp add: in_cell_def Universe_init_def)
  have c: "get_chunk Universe_init (Vec3_add (Vec3 (- 1) 0 0) (Vec3 1 (- 1) 1999)) =
             Inr (- 1 + crossing 2000 (- 1) (- 1 + 1), 0 + crossing 2000 0 (0 + - 1),
                  0 + crossing 2000 0 (0 + 1999))"
    using th a by (simp add: Universe_init_def)
  have d: "get_chunk Universe_init (Vec3_add (Vec3 (- 1) 0 0) (Vec3 (- 1999) 1999 0)) =
             Inr (- 1 + crossing 2000 (- 1) (- 1 + - 1999), 0 + crossing 2000 0 (0 + 1999),
                  0 + crossing 2000 0 (0 + 0))"
    using th a by (simp add: Universe_init_def)
  show ?thesis using pos a b c d by (simp add: crossing_def)
qed

subsection \<open>The anchor of a group\<close>

lemma add_body_bodies: "bodies (add_body h s b) = bodies s @ [b]"
  by (simp add: add_body_def Let_def)

lemma add_body_center:
  "center_pos (add_body h s b) = (if kind (h b) = ''sun'' then pos (h b) else center_pos s)"
  by (simp add: add_body_def Let_def Vec3_copy_def)

text \<open>
  Claim C1, as stated, fails: \<open>add_body\<close> has no test for an anchor set before, so
  after two suns have been added the anchor is not the position of the first one.
\<close>

theorem add_body_first_sun_counterexample:
  "kind (two_suns 0) = ''sun'' \<and> kind (two_suns 1) = ''sun'' \<and>
   center_pos (add_body two_suns (SolarSystem_init ''S'') 0) = pos (two_suns 0) \<and>
   center_pos (add_body two_suns (add_body two_suns (SolarSystem_init ''S'') 0) 1)
     \<noteq> pos (two_suns 0)"
  by (simp add: add_body_center two_suns_def rock_def)

text \<open>
  Claim C1, amended. After any sequence of \<open>add_body\<close> calls the bodies are the old
  ones followed by the added ones in order, and the anchor is the position (at the time
  of the call) of the last Sun-type body added; it is the anchor from before when no
  Sun-type body was added.
\<close>

theorem add_body_last_sun:
  "bodies (foldl (add_body h) s bs) = bodies s @ bs \<and>
   center_pos (foldl (add_body h) s bs) =
     (if suns_of h bs = [] then center_pos s else pos (h (last (suns_of h bs))))"
proof (induction bs rule: rev_induct)
  case Nil
  show ?case by (simp add: suns_of_def)
next
  case (snoc b bs)
  then show ?case by (simp add: suns_of_def add_body_bodies add_body_center)
qed

subsection \<open>Orbits\<close>

lemma update_body_other: "r \<noteq> b \<Longrightarrow> update_body dt s h b r = h r"
  by (simp add: update_body_def Let_def split: option.splits)

lemma update_loop_other: "r \<notin> set bs \<Longrightarrow> foldl (update_body dt s) h bs r = h r"
  by (induction bs arbitrary: h) (auto simp: update_body_other)

lemma update_body_still:
  "parent (h r) = None \<or> orbitDistance (h r) \<le> 0.1 \<Longrightarrow> update_body dt s h b r = h r"
  by (cases "r = b") (auto simp: update_body_def update_orbit_def Let_def split: option.splits)

lemma update_loop_still:
  "parent (h r) = None \<or> orbitDistance (h r) \<le> 0.1 \<Longrightarrow> foldl (update_body dt s) h bs r = h r"
proof (induction bs arbitrary: h)
  case Nil
  show ?case by simp
next
  case (Cons b bs)
  have "update_body dt s h b r = h r" using Cons.prems by (rule update_body_still)
  with Cons show ?case by simp
qed

lemma update_body_moves:
  assumes "parent (h b) = Some pr" and "orbitDistance (h b) > 0.1"
  shows "update_body dt s h b b =
           (h b)\<lparr>orbitAngle := orbitAngle (h b) + orbitSpeed (h b) * dt * 0.3,
                  pos := Vec3 (vx (parent_pos_of s h pr)
                                 + cos (orbitAngle (h b) + orbitSpeed (h b) * dt * 0.3) * orbitDistance (h b))
                              (vy (pos (h b)))
                              (vz (parent_pos_of s h pr)
                                 + sin (orbitAngle (h b) + orbitSpeed (h b) * dt * 0.3) * orbitDistance (h b))\<rparr>"
  using assms by (simp add: update_body_def update_orbit_def Let_def parent_pos_of_def)

lemma update_loop_at:
  assumes "b \<notin> set pre" and "b \<notin> set post"
  shows "foldl (update_body dt s) h (pre @ b # post) b
           = update_body dt s (foldl (update_body dt s) h pre) b b"
  using assms by (simp add: update_loop_other)

text \<open>
  Claim C6, as stated, fails in its third component: \<open>update_orbit\<close> assigns the x
  and z components only. A body five units above its parent stays five units above it.
\<close>

theorem update_orbit_height_counterexample:
  "parent (tilted 1) = Some 0 \<and> orbitDistance (tilted 1) > 0.1 \<and>
   pos (SolarSystem_update 1 tilted_system tilted 1) = Vec3 10 5 0 \<and>
   pos (SolarSystem_update 1 tilted_system tilted 1)
     \<noteq> Vec3_add (pos (SolarSystem_update 1 tilted_system tilted 0))
          (Vec3 (cos (orbitAngle (SolarSystem_update 1 tilted_system tilted 1)) * 10) 0
                (sin (orbitAngle (SolarSystem_update 1 tilted_system tilted 1)) * 10))"
  by (simp add: SolarSystem_update_def tilted_system_def update_body_def update_orbit_def
      tilted_def rock_def Let_def Vec3_add_def)

text \<open>
  Claim C6, amended. One iteration of \<open>SolarSystem_update\<close> for a body \<open>b\<close> whose
  \<open>parent\<close> is set and whose orbit distance exceeds 0.1 adds
  \<open>orbitSpeed * dt * 0.3\<close> to the angle and sets the x and z components of the position
  to those of the parent position (the parent's current position when the parent is in
  the group, the anchor otherwise) plus \<open>cos angle * distance\<close> and
  \<open>sin angle * distance\<close>; the y component keeps its value. For a body that occurs once
  in the list, that iteration, run on the heap the earlier iterations left, gives its
  state after the whole update; no iteration changes another body; and a body without
  parent or with orbit distance at most 0.1 is not changed by the whole update.
\<close>

theorem update_orbit_planar:
  "(\<forall>pr. parent (h b) = Some pr \<and> orbitDistance (h b) > 0.1 \<longrightarrow>
      update_body dt s h b b =
        (h b)\<lparr>orbitAngle := orbitAngle (h b) + orbitSpeed (h b) * dt * 0.3,
               pos := Vec3 (vx (parent_pos_of s h pr)
                              + cos (orbitAngle (h b) + orbitSpeed (h b) * dt * 0.3) * orbitDistance (h b))
                           (vy (pos (h b)))
                           (vz (parent_pos_of s h pr)
                              + sin (orbitAngle (h b) + orbitSpeed (h b) * dt * 0.3) * orbitDistance (h b))\<rparr>) \<and>
   (\<forall>pre post. bodies s = pre @ b # post \<and> b \<notin> set pre \<and> b \<notin> set post \<longrightarrow>
      SolarSystem_update dt s h b = update_body dt s (foldl (update_body dt s) h pre) b b) \<and>
   (\<forall>r. r \<noteq> b \<longrightarrow> update_body dt s h b r = h r) \<and>
   (parent (h b) = None \<or> orbitDistance (h b) \<le> 0.1 \<longrightarrow> SolarSystem_update dt s h b = h b)"
  using update_body_moves [of h b _ dt s] update_loop_at [of b _ _ dt s h]
    update_body_other [of _ b dt s h] update_loop_still [of h b dt s "bodies s"]
  by (simp add: SolarSystem_update_def)

theorem update_orbit_planar_witness:
  "SolarSystem_update 1 tilted_system tilted 1 =
     (tilted 1)\<lparr>orbitAngle := 0, pos := Vec3 10 5 0\<rparr> \<and>
   SolarSystem_update 1 tilted_system tilted 0 = tilted 0"
proof -
  note th = update_orbit_planar [of tilted 1 1 tilted_system]
  have b: "bodies tilted_system = [0] @ 1 # []" by (simp add: tilted_system_def)
  have "SolarSystem_update 1 tilted_system tilted 1 =
          update_body 1 tilted_system (foldl (update_body 1 tilted_system) tilted [0]) 1 1"
    using th b by (metis empty_iff empty_set insert_iff list.simps(15) zero_neq_one)
  moreover have h0: "foldl (update_body 1 tilted_system) tilted [0] = tilted"
    by (simp add: update_body_def tilted_def rock_def)
  moreover have "update_body 1 tilted_system tilted 1 1 = (tilted 1)\<lparr>orbitAngle := 0, pos := Vec3 10 5 0\<rparr>"
    using th by (simp add: tilted_def rock_def parent_pos_of_def tilted_system_def)
  moreover have "SolarSystem_update 1 tilted_system tilted 0 = tilted 0"
    using update_orbit_planar [of tilted 0 1 tilted_system] by (simp add: tilted_def rock_def)
  ultimately show ?thesis by simp
qed

subsection \<open>Landing and bouncing\<close>

lemma Vec3_mag_z: "Vec3_mag (Vec3 0 0 a) = \<bar>a\<bar>"
  by (simp add: Vec3_mag_def)

lemma Vec3_dist_z: "Vec3_dist (Vec3 0 0 a) (Vec3 0 0 b) = \<bar>a - b\<bar>"
  by (simp add: Vec3_dist_def Vec3_sub_def Vec3_mag_z)

lemma collide_lands:
  assumes "lands h c p"
  shows "Saucer_collide h c p =
           c\<lparr>landed_on := Some p, speed := 0, s_vel := Vec3 0 0 0, s_pos := snap h c p,
             pitch := - 82\<rparr>"
  using assms by (simp add: Saucer_collide_def lands_def snap_def Let_def)


lemma collide_far:
  assumes "\<not> Vec3_dist (s_pos c) (pos (h p)) < radius (h p) + 23"
  shows "Saucer_collide h c p = c"
  using assms by (simp add: Saucer_collide_def Let_def)




lemma forward_level: "yaw c = 0 \<Longrightarrow> pitch c = 0 \<Longrightarrow> get_forward_vector c = Vec3 0 0 (- 1)"
  by (simp add: get_forward_vector_def radians_def)

lemma controls_W_z:
  "Saucer_controls (no_keys\<lparr>K_w := True\<rparr>) 0 0 False 0 (craft z v None 0) =
     (craft z v None 0)\<lparr>speed := max (- 15) (min (v + 0.85) 42),
                 s_vel := Vec3 0 0 (- max (- 15) (min (v + 0.85) 42)),
                 s_pos := Vec3 0 0 (z - max (- 15) (min (v + 0.85) 42))\<rparr>"
proof -
  have t: "ctl_thrust (no_keys\<lparr>K_w := True\<rparr>) (craft z v None 0) =
             (craft z v None 0)\<lparr>speed := max (- 15) (min (v + 0.85) 42)\<rparr>"
    by (simp add: ctl_thrust_def no_keys_def craft_def)
  have y: "ctl_yaw (no_keys\<lparr>K_w := True\<rparr>) c = c" for c
    by (simp add: ctl_yaw_def no_keys_def)
  have l: "ctl_lift (no_keys\<lparr>K_w := True\<rparr>) c = c" for c
    by (simp add: ctl_lift_def no_keys_def)
  have p: "ctl_pitch 0 ((craft z v None 0)\<lparr>speed := w\<rparr>) = (craft z v None 0)\<lparr>speed := w\<rparr>" for w
    by (simp add: ctl_pitch_def craft_def)
  have m: "ctl_move ((craft z v None 0)\<lparr>speed := w\<rparr>) =
             (craft z v None 0)\<lparr>speed := w, s_vel := Vec3 0 0 (- w), s_pos := Vec3 0 0 (z - w)\<rparr>" for w
    by (simp add: ctl_move_def forward_level craft_def Vec3_mul_def Vec3_add_def)
  have c: "ctl_camera 0 0 False ((craft z v None 0)\<lparr>speed := w, s_vel := a, s_pos := b\<rparr>) =
             (craft z v None 0)\<lparr>speed := w, s_vel := a, s_pos := b\<rparr>" for w a b
    by (simp add: ctl_camera_def craft_def lerp_def lerp_angle_def py_fmod_def)
  show ?thesis
    by (simp only: Saucer_controls_def t y l p m c)
qed

lemma normalize_z: "0 < a \<Longrightarrow> Vec3_normalize (Vec3 0 0 a) = Vec3 0 0 1"
  by (simp add: Vec3_normalize_def Vec3_mag_z)


subsection \<open>The last body that lands wins\<close>

lemma collisions_append:
  "Saucer_collisions h (ps @ qs) c = Saucer_collisions h qs (Saucer_collisions h ps c)"
  by (simp add: Saucer_collisions_def)

lemma collide_stopped:
  assumes "speed c = 0" and "\<not> lands h c q"
  shows "Saucer_collide h c q = c"
  using assms by (simp add: Saucer_collide_def lands_def Let_def)

lemma collisions_stay:
  assumes "speed c = 0"
    and "\<forall>i<length post. \<not> lands h (Saucer_collisions h (take i post) c) (post ! i)"
  shows "Saucer_collisions h post c = c"
  using assms(2)
proof (induction post)
  case Nil
  show ?case by (simp add: Saucer_collisions_def)
next
  case (Cons q qs)
  have "\<not> lands h (Saucer_collisions h (take 0 (q # qs)) c) ((q # qs) ! 0)"
    using Cons.prems by blast
  then have q: "Saucer_collide h c q = c"
    using assms(1) by (simp add: Saucer_collisions_def collide_stopped)
  have "\<forall>i<length qs. \<not> lands h (Saucer_collisions h (take i qs) c) (qs ! i)"
  proof (intro allI impI)
    fix i assume "i < length qs"
    then have "\<not> lands h (Saucer_collisions h (take (Suc i) (q # qs)) c) ((q # qs) ! Suc i)"
      using Cons.prems by (metis Suc_less_eq length_Cons)
    then show "\<not> lands h (Saucer_collisions h (take i qs) c) (qs ! i)"
      using q by (simp add: Saucer_collisions_def)
  qed
  then have "Saucer_collisions h qs c = c" by (rule Cons.IH)
  then show ?case using q by (simp add: Saucer_collisions_def)
qed

lemma update_flying:
  assumes "landed_on s = None"
  shows "Saucer_update keys h ps mx my rh wd s =
           Saucer_collisions h ps (Saucer_controls keys mx my rh wd s)"
  using assms by (simp add: Saucer_update_def)

lemma lands_row:
  "lands row_of_rocks ((craft z v l q)\<lparr>s_vel := a\<rparr>) r =
     (\<bar>z - 10 * of_nat r\<bar> < 123 \<and> \<bar>v\<bar> < 11)"
  by (simp add: lands_def craft_def row_of_rocks_def rock_def Vec3_dist_z)

lemma landed_row:
  "10 * of_nat r < z \<Longrightarrow>
     (craft z v l q)\<lparr>s_vel := a, landed_on := Some r, speed := 0, s_vel := Vec3 0 0 0,
                      s_pos := snap row_of_rocks ((craft z v l q)\<lparr>s_vel := a\<rparr>) r,
                      pitch := - 82\<rparr> =
     craft (10 * of_nat r + 107) 0 (Some r) (- 82)"
  by (simp add: snap_def craft_def row_of_rocks_def rock_def Vec3_sub_def normalize_z
      Vec3_mul_def Vec3_add_def)

lemma craft_vel: "craft z v l q = (craft z v l q)\<lparr>s_vel := Vec3 0 0 0\<rparr>"
  by (simp add: craft_def)

lemma collide_row:
  assumes "\<bar>z - 10 * of_nat r\<bar> < 123" and "\<bar>v\<bar> < 11" and "10 * of_nat r < z"
  shows "Saucer_collide row_of_rocks ((craft z v l q)\<lparr>s_vel := a\<rparr>) r =
           craft (10 * of_nat r + 107) 0 (Some r) (- 82)"
proof -
  have "lands row_of_rocks ((craft z v l q)\<lparr>s_vel := a\<rparr>) r"
    using assms(1,2) by (simp add: lands_row)
  from collide_lands [OF this] landed_row [OF assms(3), where v = v and l = l and q = q and a = a]
  show ?thesis by simp
qed

lemma row_out_of_reach:
  assumes "\<not> \<bar>z - 10 * of_nat r\<bar> < 123"
  shows "Saucer_collide row_of_rocks (craft z v l q) r = craft z v l q"
proof (rule collide_far)
  show "\<not> Vec3_dist (s_pos (craft z v l q)) (pos (row_of_rocks r)) < radius (row_of_rocks r) + 23"
    using assms by (simp add: craft_def row_of_rocks_def rock_def Vec3_dist_z)
qed

lemma controls_W_slow:
  assumes "- 15 \<le> v + 0.85" and "v + 0.85 \<le> 42"
  shows "Saucer_controls (no_keys\<lparr>K_w := True\<rparr>) 0 0 False 0 (craft z v None 0) =
           (craft (z - (v + 0.85)) (v + 0.85) None 0)\<lparr>s_vel := Vec3 0 0 (- (v + 0.85))\<rparr>"
proof -
  have "max (- 15) (min (v + 0.85) 42) = v + 0.85" using assms by simp
  then show ?thesis by (simp add: controls_W_z) (simp add: craft_def)
qed

text \<open>
  Claim C10, as stated, fails. Each body of the list is tested against the craft as the
  earlier iterations left it, and a landing moves the craft (line 251). A craft at
  \<open>z = 119\<close> with speed 0.15 and the key W held enters the loop at \<open>z = 118\<close> with
  speed 1, between a body of radius 100 at \<open>z = 0\<close> (reference 0) and one at
  \<open>z = 240\<close> (reference 24). Both bodies satisfy the landing condition, on the craft
  before the controls and on the craft entering the loop: it is within 123 of each and
  slower than 11. The first iteration lands the craft on body 0 and snaps it to
  \<open>z = 107\<close>, which is 133 from body 24; the second iteration finds it out of range.
  The craft ends the tick landed on the first of the two bodies, not on the last.
\<close>

theorem last_in_range_counterexample:
  "lands row_of_rocks (craft 119 0.15 None 0) 0 \<and>
   lands row_of_rocks (craft 119 0.15 None 0) 24 \<and>
   lands row_of_rocks
     (Saucer_controls (no_keys\<lparr>K_w := True\<rparr>) 0 0 False 0 (craft 119 0.15 None 0)) 0 \<and>
   lands row_of_rocks
     (Saucer_controls (no_keys\<lparr>K_w := True\<rparr>) 0 0 False 0 (craft 119 0.15 None 0)) 24 \<and>
   Saucer_update (no_keys\<lparr>K_w := True\<rparr>) row_of_rocks [0, 24] 0 0 False 0
     (craft 119 0.15 None 0) = craft 107 0 (Some 0) (- 82) \<and>
   landed_on (Saucer_update (no_keys\<lparr>K_w := True\<rparr>) row_of_rocks [0, 24] 0 0 False 0
     (craft 119 0.15 None 0)) \<noteq> Some 24"
proof -
  have before: "lands row_of_rocks (craft 119 0.15 None 0) 0"
    "lands row_of_rocks (craft 119 0.15 None 0) 24"
    using lands_row [where z = 119 and v = "0.15" and l = None and q = 0 and a = "Vec3 0 0 0" and r = 0]
      lands_row [where z = 119 and v = "0.15" and l = None and q = 0 and a = "Vec3 0 0 0" and r = 24]
      craft_vel [where z = 119 and v = "0.15" and l = None and q = 0]
    by simp_all
  have c: "Saucer_controls (no_keys\<lparr>K_w := True\<rparr>) 0 0 False 0 (craft 119 0.15 None 0) =
             (craft 118 1 None 0)\<lparr>s_vel := Vec3 0 0 (- 1)\<rparr>"
    using controls_W_slow [where v = "0.15" and z = 119] by simp
  have entering: "lands row_of_rocks ((craft 118 1 None 0)\<lparr>s_vel := Vec3 0 0 (- 1)\<rparr>) 0"
    "lands row_of_rocks ((craft 118 1 None 0)\<lparr>s_vel := Vec3 0 0 (- 1)\<rparr>) 24"
    by (simp_all add: lands_row)
  have first: "Saucer_collide row_of_rocks ((craft 118 1 None 0)\<lparr>s_vel := Vec3 0 0 (- 1)\<rparr>) 0 =
                 craft 107 0 (Some 0) (- 82)"
    using collide_row [where z = 118 and r = 0 and v = 1 and l = None and q = 0
        and a = "Vec3 0 0 (- 1)"] by simp
  have second: "Saucer_collide row_of_rocks (craft 107 0 (Some 0) (- 82)) 24 =
                  craft 107 0 (Some 0) (- 82)"
    by (rule row_out_of_reach) simp
  have "Saucer_update (no_keys\<lparr>K_w := True\<rparr>) row_of_rocks [0, 24] 0 0 False 0
          (craft 119 0.15 None 0) =
        Saucer_collisions row_of_rocks [0, 24] ((craft 118 1 None 0)\<lparr>s_vel := Vec3 0 0 (- 1)\<rparr>)"
    using update_flying [where s = "craft 119 0.15 None 0" and keys = "no_keys\<lparr>K_w := True\<rparr>"
        and h = row_of_rocks and ps = "[0, 24]" and mx = 0 and my = 0 and rh = False and wd = 0]
    by (simp only: c) (simp add: craft_def)
  then have u: "Saucer_update (no_keys\<lparr>K_w := True\<rparr>) row_of_rocks [0, 24] 0 0 False 0
          (craft 119 0.15 None 0) = craft 107 0 (Some 0) (- 82)"
    by (simp add: Saucer_collisions_def first second)
  have "landed_on (craft 107 0 (Some 0) (- 82)) \<noteq> Some 24" by (simp add: craft_def)
  then show ?thesis using before entering u by (simp only: c) simp
qed

text \<open>
  Claim C10, amended. One update of a craft in flight runs the collision loop over the
  whole body list, from the craft as the controls of the tick left it, with no early
  exit: after a body \<open>p\<close> the loop goes on with the rest of the list, from the state
  that \<open>p\<close>'s iteration left. Each body is tested on the craft as it is when the body's
  turn comes, not as it entered the loop. When \<open>p\<close> meets the landing condition at its
  turn and no later body meets it at its own, the craft ends the tick landed on \<open>p\<close>
  and snapped to \<open>p\<close>: among the bodies that land the craft, the last one overwrites
  what the earlier ones set.
\<close>

theorem last_lander_wins:
  "(landed_on s = None \<longrightarrow>
      Saucer_update keys h ps mx my rh wd s =
        Saucer_collisions h ps (Saucer_controls keys mx my rh wd s)) \<and>
   Saucer_collisions h (pre @ p # post) c =
     Saucer_collisions h post (Saucer_collide h (Saucer_collisions h pre c) p) \<and>
   (lands h (Saucer_collisions h pre c) p \<and>
    (\<forall>i<length post.
       \<not> lands h (Saucer_collisions h (pre @ p # take i post) c) (post ! i)) \<longrightarrow>
    Saucer_collisions h (pre @ p # post) c =
      (Saucer_collisions h pre c)
        \<lparr>landed_on := Some p, speed := 0, s_vel := Vec3 0 0 0,
         s_pos := snap h (Saucer_collisions h pre c) p, pitch := - 82\<rparr>)"
proof (intro conjI impI)
  assume "landed_on s = None"
  then show "Saucer_update keys h ps mx my rh wd s =
        Saucer_collisions h ps (Saucer_controls keys mx my rh wd s)"
    by (rule update_flying)
next
  show split: "Saucer_collisions h (pre @ p # post) c =
     Saucer_collisions h post (Saucer_collide h (Saucer_collisions h pre c) p)"
    by (simp add: Saucer_collisions_def)
  assume a: "lands h (Saucer_collisions h pre c) p \<and>
    (\<forall>i<length post.
       \<not> lands h (Saucer_collisions h (pre @ p # take i post) c) (post ! i))"
  define c1 where "c1 = Saucer_collide h (Saucer_collisions h pre c) p"
  have l: "c1 = (Saucer_collisions h pre c)
        \<lparr>landed_on := Some p, speed := 0, s_vel := Vec3 0 0 0,
         s_pos := snap h (Saucer_collisions h pre c) p, pitch := - 82\<rparr>"
    using a by (simp add: c1_def collide_lands)
  have "\<forall>i<length post. \<not> lands h (Saucer_collisions h (take i post) c1) (post ! i)"
    using a by (simp add: Saucer_collisions_def c1_def)
  moreover have "speed c1 = 0" using l by simp
  ultimately have "Saucer_collisions h post c1 = c1" by (simp add: collisions_stay)
  then show "Saucer_collisions h (pre @ p # post) c =
      (Saucer_collisions h pre c)
        \<lparr>landed_on := Some p, speed := 0, s_vel := Vec3 0 0 0,
         s_pos := snap h (Saucer_collisions h pre c) p, pitch := - 82\<rparr>"
    using split l by (simp add: c1_def)
qed

theorem last_lander_wins_witness:
  "lands row_of_rocks
     (Saucer_controls (no_keys\<lparr>K_w := True\<rparr>) 0 0 False 0 (craft 120 4.15 None 0)) 0 \<and>
   lands row_of_rocks
     (Saucer_collisions row_of_rocks [0]
        (Saucer_controls (no_keys\<lparr>K_w := True\<rparr>) 0 0 False 0 (craft 120 4.15 None 0))) 2 \<and>
   Saucer_update (no_keys\<lparr>K_w := True\<rparr>) row_of_rocks [0, 2, 30] 0 0 False 0
     (craft 120 4.15 None 0) = craft 127 0 (Some 2) (- 82)"
proof -
  define c where "c = (craft 115 5 None 0)\<lparr>s_vel := Vec3 0 0 (- 5)\<rparr>"
  have ctl: "Saucer_controls (no_keys\<lparr>K_w := True\<rparr>) 0 0 False 0 (craft 120 4.15 None 0) = c"
    using controls_W_slow [where v = "4.15" and z = 120] by (simp add: c_def)
  have l0: "lands row_of_rocks c 0"
    by (simp add: c_def lands_row)
  have step0: "Saucer_collide row_of_rocks c 0 = craft 107 0 (Some 0) (- 82)"
    using collide_row [where z = 115 and r = 0 and v = 5 and l = None and q = 0
        and a = "Vec3 0 0 (- 5)"] by (simp add: c_def)
  have first: "Saucer_collisions row_of_rocks [0] c = craft 107 0 (Some 0) (- 82)"
    by (simp add: Saucer_collisions_def step0)
  have l': "lands row_of_rocks (craft 107 0 (Some 0) (- 82)) 2"
    using lands_row [where z = 107 and v = 0 and l = "Some 0" and q = "- 82" and a = "Vec3 0 0 0"
        and r = 2] craft_vel [where z = 107 and v = 0 and l = "Some 0" and q = "- 82"]
    by simp
  have l: "lands row_of_rocks (Saucer_collisions row_of_rocks [0] c) 2"
    using l' by (simp only: first)
  have step2: "Saucer_collide row_of_rocks (craft 107 0 (Some 0) (- 82)) 2 =
                 craft 127 0 (Some 2) (- 82)"
    using collide_row [where z = 107 and r = 2 and v = 0 and l = "Some 0" and q = "- 82"
        and a = "Vec3 0 0 0"] craft_vel [where z = 107 and v = 0 and l = "Some 0" and q = "- 82"]
    by simp
  have second: "Saucer_collisions row_of_rocks [0, 2] c = craft 127 0 (Some 2) (- 82)"
    by (simp add: Saucer_collisions_def step0 step2)
  have third: "\<not> lands row_of_rocks (craft 127 0 (Some 2) (- 82)) 30"
    using lands_row [where z = 127 and v = 0 and l = "Some 2" and q = "- 82" and a = "Vec3 0 0 0"
        and r = 30] craft_vel [where z = 127 and v = 0 and l = "Some 2" and q = "- 82"]
    by simp
  have far: "\<forall>i<length [30::nat].
       \<not> lands row_of_rocks (Saucer_collisions row_of_rocks ([0] @ 2 # take i [30]) c) ([30] ! i)"
  proof (intro allI impI)
    fix i :: nat assume "i < length [30::nat]"
    then have "i = 0" by simp
    then show "\<not> lands row_of_rocks
           (Saucer_collisions row_of_rocks ([0] @ 2 # take i [30]) c) ([30] ! i)"
      using third by (simp add: second)
  qed
  note th = last_lander_wins [where s = "craft 120 4.15 None 0"
      and keys = "no_keys\<lparr>K_w := True\<rparr>" and h = row_of_rocks and ps = "[0, 2, 30]"
      and mx = 0 and my = 0 and rh = False and wd = 0 and pre = "[0]" and p = 2 and post = "[30]"
      and c = c]
  have fly: "landed_on (craft 120 4.15 None 0) = None" by (simp add: craft_def)
  have "Saucer_update (no_keys\<lparr>K_w := True\<rparr>) row_of_rocks [0, 2, 30] 0 0 False 0
          (craft 120 4.15 None 0) = Saucer_collisions row_of_rocks [0, 2, 30] c"
    using th [THEN conjunct1] fly by (simp only: ctl)
  moreover have "Saucer_collisions row_of_rocks ([0] @ 2 # [30]) c =
          (Saucer_collisions row_of_rocks [0] c)
            \<lparr>landed_on := Some 2, speed := 0, s_vel := Vec3 0 0 0,
             s_pos := snap row_of_rocks (Saucer_collisions row_of_rocks [0] c) 2,
             pitch := - 82\<rparr>"
    using th [THEN conjunct2, THEN conjunct2] l far by blast
  then have "Saucer_collisions row_of_rocks [0, 2, 30] c = craft 127 0 (Some 2) (- 82)"
    using landed_row [where r = 2 and z = 107 and v = 0 and l = "Some 0" and q = "- 82"
        and a = "Vec3 0 0 0"] craft_vel [where z = 107 and v = 0 and l = "Some 0" and q = "- 82"]
    by (simp add: first)
  ultimately have "Saucer_update (no_keys\<lparr>K_w := True\<rparr>) row_of_rocks [0, 2, 30] 0 0 False 0
          (craft 120 4.15 None 0) = craft 127 0 (Some 2) (- 82)"
    by simp
  then show ?thesis using l0 l by (simp only: ctl)
qed

subsection \<open>The colour of a new planet\<close>

lemma scan_digits_error: "scan_digits u s a cs = Inl e \<Longrightarrow> e = ValueError"
  by (induction u s a cs rule: scan_digits.induct) (auto split: if_splits option.splits)

lemma py_int16_error: "py_int16 s = Inl e \<Longrightarrow> e = ValueError"
  by (auto simp: py_int16_def split: if_splits sum.splits prod.splits
      dest: scan_digits_error)

lemma py_int16_empty: "py_int16 [] = Inl ValueError"
  by (simp add: py_int16_def int16_digits_def)

lemma hex_color_error: "hex_color h = Inl e \<Longrightarrow> e = ValueError"
  by (auto simp: hex_color_def split: sum.splits dest: py_int16_error)

lemma hex_color_short: "length h \<le> 5 \<Longrightarrow> hex_color h = Inl ValueError"
  by (auto simp: hex_color_def py_int16_empty split: sum.splits dest: py_int16_error)

lemma hex_color_default: "hex_color ''#4488ff'' = Inr (68 / 255, 136 / 255, 1)"
  by (simp add: hex_color_def py_int16_def int16_digits_def is_space_def hex_digit_def)

lemma hex_color_bad:
  "hex_color ''#12'' = Inl ValueError" "hex_color ''#zzzzzz'' = Inl ValueError"
  by (simp_all add: hex_color_def py_int16_def int16_digits_def is_space_def hex_digit_def)

lemma ocean_hex_of:
  "ocean_hex data = (case ocean_of data of None \<Rightarrow> ''#4488ff'' | Some h \<Rightarrow> h)"
  by (simp add: ocean_hex_def ocean_of_def split: option.splits)

lemma Planet_init_color_error:
  assumes "ocean_of data = Some h" and "hex_color h = Inl e"
  shows "fst (Planet_init L p data hm w) = Inl e"
  using assms by (simp add: Planet_init_def ocean_hex_of split: prod.splits)

lemma Planet_init_color:
  assumes "hex_color (case ocean_of data of None \<Rightarrow> ''#4488ff'' | Some h \<Rightarrow> h) = Inr col"
    and "texture_ok hm"
  shows "fst (Planet_init L p data hm w) = Inr (next_ref w) \<and>
         color (heap (snd (Planet_init L p data hm w)) (next_ref w)) = col"
  using assms
  by (auto simp: Planet_init_def ocean_hex_of texture_ok_def load_texture_def Image_open_def
      is_empty_def Planet_fields_def split: prod.splits)

text \<open>
  Claim C7, as stated, fails: a colour string that is present is parsed as it is, and
  a string of the wrong length or with letters that are no hex digits makes the
  constructor raise \<^verbatim>\<open>ValueError\<close>; the default is not substituted.
\<close>

theorem bad_color_counterexample:
  "ocean_of (with_ocean ''#12'') = Some ''#12'' \<and>
   fst (Planet_init fixed_lib (Vec3 0 0 0) (with_ocean ''#12'') None empty_world) = Inl ValueError \<and>
   fst (Planet_init fixed_lib (Vec3 0 0 0) (with_ocean ''#zzzzzz'') None empty_world) = Inl ValueError"
proof -
  have o: "ocean_of (with_ocean h) = Some h" for h by (simp add: ocean_of_def with_ocean_def)
  show ?thesis
    using o [of "''#12''"]
      Planet_init_color_error [OF o hex_color_bad(1), of fixed_lib "Vec3 0 0 0" None empty_world]
      Planet_init_color_error [OF o hex_color_bad(2), of fixed_lib "Vec3 0 0 0" None empty_world]
    by (intro conjI)
qed

text \<open>
  Claim C7, amended. Constructing a body applies the default ocean colour
  \<^verbatim>\<open>#4488ff\<close> whenever the colour string is absent (and the height map, if any,
  is of zero bytes or decodes). A string that is present is never replaced by the
  default: when its three two-character slices parse as base-16 integer literals the
  colour is what they decode to, and when one does not parse, as for every string of at
  most five characters, the construction fails with \<^verbatim>\<open>ValueError\<close>.
\<close>

theorem color_default_when_absent:
  "(ocean_of data = None \<and> texture_ok hm \<longrightarrow>
      fst (Planet_init L p data hm w) = Inr (next_ref w) \<and>
      color (heap (snd (Planet_init L p data hm w)) (next_ref w)) = (68 / 255, 136 / 255, 1)) \<and>
   (\<forall>h. ocean_of data = Some h \<longrightarrow>
      (\<forall>col. hex_color h = Inr col \<and> texture_ok hm \<longrightarrow>
         fst (Planet_init L p data hm w) = Inr (next_ref w) \<and>
         color (heap (snd (Planet_init L p data hm w)) (next_ref w)) = col) \<and>
      (\<forall>e. hex_color h = Inl e \<longrightarrow>
         e = ValueError \<and> fst (Planet_init L p data hm w) = Inl ValueError) \<and>
      (length h \<le> 5 \<longrightarrow> fst (Planet_init L p data hm w) = Inl ValueError))"
proof -
  have absent: "fst (Planet_init L p data hm w) = Inr (next_ref w) \<and>
      color (heap (snd (Planet_init L p data hm w)) (next_ref w)) = (68 / 255, 136 / 255, 1)"
    if "ocean_of data = None \<and> texture_ok hm"
  proof (rule Planet_init_color)
    show "hex_color (case ocean_of data of None \<Rightarrow> ''#4488ff'' | Some h \<Rightarrow> h)
            = Inr (68 / 255, 136 / 255, 1)"
      using that hex_color_default by (simp del: divide_divide_eq_left)
    show "texture_ok hm" using that by simp
  qed
  have good: "fst (Planet_init L p data hm w) = Inr (next_ref w) \<and>
         color (heap (snd (Planet_init L p data hm w)) (next_ref w)) = col"
    if "ocean_of data = Some h" and "hex_color h = Inr col \<and> texture_ok hm" for h col
  proof (rule Planet_init_color)
    show "hex_color (case ocean_of data of None \<Rightarrow> ''#4488ff'' | Some h \<Rightarrow> h) = Inr col"
      using that by simp
    show "texture_ok hm" using that by simp
  qed
  have bad: "e = ValueError \<and> fst (Planet_init L p data hm w) = Inl ValueError"
    if "ocean_of data = Some h" and "hex_color h = Inl e" for h e
    using that Planet_init_color_error [OF that, of L p hm w] hex_color_error [OF that(2)]
    by simp
  have short: "fst (Planet_init L p data hm w) = Inl ValueError"
    if "ocean_of data = Some h" and "length h \<le> 5" for h
    using bad [OF that(1) hex_color_short [OF that(2)]] by simp
  show ?thesis using absent good bad short by blast
qed

theorem color_default_when_absent_witness:
  "fst (Planet_init fixed_lib (Vec3 0 0 0) jempty None empty_world) = Inr 0 \<and>
   color (heap (snd (Planet_init fixed_lib (Vec3 0 0 0) jempty None empty_world)) 0)
     = (68 / 255, 136 / 255, 1) \<and>
   color (heap (snd (Planet_init fixed_lib (Vec3 0 0 0) (with_ocean ''#112233'') None empty_world)) 0)
     = (17 / 255, 34 / 255, 51 / 255) \<and>
   fst (Planet_init fixed_lib (Vec3 0 0 0) (with_ocean ''#1'') None empty_world) = Inl ValueError"
proof -
  have e: "ocean_of jempty = None" by (simp add: ocean_of_def jempty_def)
  have t: "texture_ok None" by (simp add: texture_ok_def)
  have n: "next_ref empty_world = 0" by (simp add: empty_world_def)
  have o: "ocean_of (with_ocean h) = Some h" for h by (simp add: ocean_of_def with_ocean_def)
  have c: "hex_color ''#112233'' = Inr (17 / 255, 34 / 255, 51 / 255)"
    by (simp add: hex_color_def py_int16_def int16_digits_def is_space_def hex_digit_def)
  have l: "length ''#1'' \<le> 5" by simp
  note th1 = color_default_when_absent [of jempty None fixed_lib "Vec3 0 0 0" empty_world]
  note th2 = color_default_when_absent [of "with_ocean ''#112233''" None fixed_lib "Vec3 0 0 0" empty_world]
  note th3 = color_default_when_absent [of "with_ocean ''#1''" None fixed_lib "Vec3 0 0 0" empty_world]
  have a: "fst (Planet_init fixed_lib (Vec3 0 0 0) jempty None empty_world) = Inr (next_ref empty_world) \<and>
   color (heap (snd (Planet_init fixed_lib (Vec3 0 0 0) jempty None empty_world)) (next_ref empty_world))
     = (68 / 255, 136 / 255, 1)"
    using th1 e t by blast
  have b: "color (heap (snd (Planet_init fixed_lib (Vec3 0 0 0) (with_ocean ''#112233'') None empty_world))
              (next_ref empty_world)) = (17 / 255, 34 / 255, 51 / 255)"
    using th2 o c t by blast
  have d: "fst (Planet_init fixed_lib (Vec3 0 0 0) (with_ocean ''#1'') None empty_world) = Inl ValueError"
    using th3 o l by blast
  show ?thesis using a b d unfolding n by blast
qed

subsection \<open>Parent indices\<close>

lemma Planet_init_ok:
  assumes "hex_color (ocean_hex data) = Inr col" and "texture_ok hm"
  shows "Planet_init L p data hm w =
           (Inr (next_ref w),
            w\<lparr>rng := snd (random_random L (rng w)),
              heap := (heap w)(next_ref w :=
                        Planet_fields p data (truthy hm) (fst (random_random L (rng w))) col),
              next_ref := Suc (next_ref w)\<rparr>)"
  using assms
  by (auto simp: Planet_init_def texture_ok_def load_texture_def Image_open_def is_empty_def
      split: prod.splits)

lemma Planet_init_no_bytes: "Planet_init L p data (Some Empty) w = Planet_init L p data None w"
  by (simp add: Planet_init_def is_empty_def truthy_def case_prod_beta split: sum.splits)

lemma Planet_init_jempty:
  "Planet_init L p jempty None w =
           (Inr (next_ref w),
            w\<lparr>rng := snd (random_random L (rng w)),
              heap := (heap w)(next_ref w :=
                        Planet_fields p jempty False (fst (random_random L (rng w)))
                          (68 / 255, 136 / 255, 1)),
              next_ref := Suc (next_ref w)\<rparr>)"
proof -
  have "hex_color (ocean_hex jempty) = Inr (68 / 255, 136 / 255, 1)"
    using hex_color_default by (simp add: ocean_hex_def jempty_def del: divide_divide_eq_left)
  from Planet_init_ok [OF this, of None] show ?thesis by (simp add: texture_ok_def truthy_def)
qed

text \<open>
  Claim C8 does not hold of the code. The guard of line 354 bounds the parent index
  from above only, so the index \<open>- 1\<close> on the first body reaches
  \<^verbatim>\<open>sys.bodies[-1]\<close> on an empty list: the loader ends with \<^verbatim>\<open>IndexError\<close>, no
  group is appended and the status message is a load error. An index that is too large
  (7) or absent is ignored, and the import succeeds.
\<close>

theorem negative_parent_fails_import:
  "fst (load_solar_system L (system_zip (Some (- 1))) w) = Some IndexError \<and>
   custom_systems (load_editor_zip L (Some (Archive (system_zip (Some (- 1))))) w)
     = custom_systems w \<and>
   ui_message (player (load_editor_zip L (Some (Archive (system_zip (Some (- 1))))) w))
     = ''Load error: '' @ take 40 (exc_str L IndexError) \<and>
   fst (load_solar_system L (system_zip (Some 7)) w) = None \<and>
   fst (load_solar_system L (system_zip None) w) = None"
  by (simp add: load_editor_zip_def dispatch_def load_solar_system_def load_body_def
      body_entry_def system_zip_def planet_zip_def ZipFile_def
      zip_read_def json_loads_def Planet_init_jempty resolve_parent_def py_index_def Let_def
      SolarSystem_init_def)

subsection \<open>Generation is a function of the chunk key\<close>

lemma proc_args_ocean: "ocean_hex (snd (fst (proc_args L cs key g))) = ''#4488ff''"
  by (cases key) (simp add: proc_args_def ocean_hex_def split: prod.splits)

lemma gen_planet_eq:
  "gen_planet L key w =
     (Inr (next_ref w),
      w\<lparr>rng := snd (proc_planet L (chunk_size (universe w)) key (rng w)),
        heap := (heap w)(next_ref w := fst (proc_planet L (chunk_size (universe w)) key (rng w))),
        next_ref := Suc (next_ref w)\<rparr>)"
proof -
  obtain p data g where a: "proc_args L (chunk_size (universe w)) key (rng w) = ((p, data), g)"
    by (metis surj_pair)
  have "hex_color (ocean_hex data) = Inr (68 / 255, 136 / 255, 1)"
    using proc_args_ocean [of L "chunk_size (universe w)" key "rng w"] a hex_color_default
    by (simp del: divide_divide_eq_left)
  from Planet_init_ok [OF this, of None L p "w\<lparr>rng := g\<rparr>"] a
  show ?thesis by (simp add: gen_planet_def proc_planet_def texture_ok_def truthy_def)
qed

lemma proc_planets_Suc:
  "fst (proc_planets L cs key (Suc n) g) =
     fst (proc_planet L cs key g) # fst (proc_planets L cs key n (snd (proc_planet L cs key g)))"
  "snd (proc_planets L cs key (Suc n) g) =
     snd (proc_planets L cs key n (snd (proc_planet L cs key g)))"
  by (simp_all add: case_prod_beta)

lemma gen_planets_eq:
  "\<exists>w'. gen_planets L key n acc w = (Inr (acc @ [next_ref w ..< next_ref w + n]), w') \<and>
        rng w' = snd (proc_planets L (chunk_size (universe w)) key n (rng w)) \<and>
        map (heap w') [next_ref w ..< next_ref w + n]
          = fst (proc_planets L (chunk_size (universe w)) key n (rng w)) \<and>
        (\<forall>r<next_ref w. heap w' r = heap w r) \<and>
        next_ref w' = next_ref w + n \<and> universe w' = universe w \<and> gen_log w' = gen_log w \<and>
        player w' = player w \<and> custom_systems w' = custom_systems w"
proof (induction n arbitrary: acc w)
  case 0
  show ?case by simp
next
  case (Suc n)
  define w1 where "w1 = snd (gen_planet L key w)"
  have g: "gen_planet L key w = (Inr (next_ref w), w1)"
    by (simp add: w1_def gen_planet_eq)
  have w1: "rng w1 = snd (proc_planet L (chunk_size (universe w)) key (rng w))"
    "heap w1 = (heap w)(next_ref w := fst (proc_planet L (chunk_size (universe w)) key (rng w)))"
    "next_ref w1 = Suc (next_ref w)" "universe w1 = universe w" "gen_log w1 = gen_log w"
    "player w1 = player w" "custom_systems w1 = custom_systems w"
    by (simp_all add: w1_def gen_planet_eq)
  obtain w' where
    r: "gen_planets L key n (acc @ [next_ref w]) w1
          = (Inr ((acc @ [next_ref w]) @ [next_ref w1 ..< next_ref w1 + n]), w')"
    and p: "rng w' = snd (proc_planets L (chunk_size (universe w1)) key n (rng w1))"
      "map (heap w') [next_ref w1 ..< next_ref w1 + n]
          = fst (proc_planets L (chunk_size (universe w1)) key n (rng w1))"
      "\<forall>r<next_ref w1. heap w' r = heap w1 r"
      "next_ref w' = next_ref w1 + n" "universe w' = universe w1" "gen_log w' = gen_log w1"
      "player w' = player w1" "custom_systems w' = custom_systems w1"
    using Suc.IH [of "acc @ [next_ref w]" w1] by blast
  have upt: "[next_ref w ..< next_ref w + Suc n] = next_ref w # [next_ref w1 ..< next_ref w1 + n]"
    by (simp add: w1(3) upt_rec)
  have here: "heap w' (next_ref w) = fst (proc_planet L (chunk_size (universe w)) key (rng w))"
    using p(3) w1(2,3) by simp
  have below: "\<forall>r<next_ref w. heap w' r = heap w r"
    using p(3) w1(2,3) by simp
  have res: "gen_planets L key (Suc n) acc w = (Inr (acc @ [next_ref w ..< next_ref w + Suc n]), w')"
    using g r by (simp only: gen_planets.simps upt append_assoc append_Cons append_Nil
        prod.case sum.case)
  have vals: "map (heap w') [next_ref w ..< next_ref w + Suc n]
          = fst (proc_planets L (chunk_size (universe w)) key (Suc n) (rng w))"
    using p(2) here by (simp only: upt list.map proc_planets_Suc w1)
  have gen: "rng w' = snd (proc_planets L (chunk_size (universe w)) key (Suc n) (rng w))"
    using p(1) by (simp only: proc_planets_Suc w1)
  have rest: "next_ref w' = next_ref w + Suc n" "universe w' = universe w"
    "gen_log w' = gen_log w" "player w' = player w" "custom_systems w' = custom_systems w"
    using p(4-8) w1 by simp_all
  show ?case using res vals gen below rest by blast
qed

lemma generate_chunk_cached:
  "planets (universe w) k \<noteq> None \<Longrightarrow> generate_chunk L k w = (None, w)"
  by (simp add: generate_chunk_def)

lemma generate_chunk_new:
  assumes "planets (universe w) k = None"
  shows "\<exists>rs w'. generate_chunk L k w = (None, w') \<and>
           universe w' = (universe w)\<lparr>planets := (planets (universe w))(k \<mapsto> rs)\<rparr> \<and>
           gen_log w' = gen_log w @ [k] \<and>
           map (heap w') rs =
             fst (proc_planets L (chunk_size (universe w)) k
                    (nat (fst (random_randint L 0 2 (random_seed L (hash_tuple L k)))))
                    (snd (random_randint L 0 2 (random_seed L (hash_tuple L k))))) \<and>
           (\<forall>r<next_ref w. heap w' r = heap w r) \<and> next_ref w \<le> next_ref w' \<and>
           player w' = player w \<and> custom_systems w' = custom_systems w"
proof -
  define n where "n = fst (random_randint L 0 2 (random_seed L (hash_tuple L k)))"
  define g1 where "g1 = snd (random_randint L 0 2 (random_seed L (hash_tuple L k)))"
  define w0 where "w0 = w\<lparr>rng := g1, gen_log := gen_log w @ [k]\<rparr>"
  obtain w' where
    r: "gen_planets L k (nat n) [] w0 = (Inr ([] @ [next_ref w0 ..< next_ref w0 + nat n]), w')"
    and p: "map (heap w') [next_ref w0 ..< next_ref w0 + nat n]
          = fst (proc_planets L (chunk_size (universe w0)) k (nat n) (rng w0))"
      "\<forall>r<next_ref w0. heap w' r = heap w0 r"
      "next_ref w' = next_ref w0 + nat n" "universe w' = universe w0" "gen_log w' = gen_log w0"
      "player w' = player w0" "custom_systems w' = custom_systems w0"
    using gen_planets_eq [of L k "nat n" "[]" w0] by blast
  define rs where "rs = [next_ref w0 ..< next_ref w0 + nat n]"
  define wf where
    "wf = w'\<lparr>universe := (universe w')\<lparr>planets := (planets (universe w'))(k \<mapsto> rs)\<rparr>\<rparr>"
  have 1: "generate_chunk L k w = (None, wf)"
    using assms r unfolding generate_chunk_def n_def g1_def w0_def wf_def rs_def
    by (simp add: case_prod_beta Let_def)
  have 2: "universe wf = (universe w)\<lparr>planets := (planets (universe w))(k \<mapsto> rs)\<rparr>"
    "gen_log wf = gen_log w @ [k]" "player wf = player w" "custom_systems wf = custom_systems w"
    "next_ref w \<le> next_ref wf" "\<forall>r<next_ref w. heap wf r = heap w r"
    using p by (simp_all add: wf_def w0_def)
  have 3: "map (heap wf) rs =
             fst (proc_planets L (chunk_size (universe w)) k
                    (nat (fst (random_randint L 0 2 (random_seed L (hash_tuple L k)))))
                    (snd (random_randint L 0 2 (random_seed L (hash_tuple L k)))))"
    using p(1) by (simp add: wf_def rs_def w0_def n_def g1_def)
  show ?thesis using 1 2 3 by blast
qed

lemma chunk_values_max:
  "chunk_values max_lib (0, 0, 0) =
     [Planet_fields (Vec3 2000 2000 2000)
        (JDict (Some ''proc'') None (Some (JParams (Some 250) None None None None))
           (Some (JColors (Some ''#4488ff''))) None None None None None None None)
        False (1 / 2) (68 / 255, 136 / 255, 1),
      Planet_fields (Vec3 2000 2000 2000)
        (JDict (Some ''proc'') None (Some (JParams (Some 250) None None None None))
           (Some (JColors (Some ''#4488ff''))) None None None None None None None)
        False (1 / 2) (68 / 255, 136 / 255, 1)]"
proof -
  have p: "proc_planet max_lib 2000 (0, 0, 0) () =
             (Planet_fields (Vec3 2000 2000 2000)
                   (JDict (Some ''proc'') None (Some (JParams (Some 250) None None None None))
                      (Some (JColors (Some ''#4488ff''))) None None None None None None None)
                   False (1 / 2) (68 / 255, 136 / 255, 1), ())"
    by (simp add: proc_planet_def proc_args_def max_lib_def del: divide_divide_eq_left)
  have r: "random_randint max_lib 0 2 (random_seed max_lib (hash_tuple max_lib (0, 0, 0))) = (2, ())"
    by (simp add: max_lib_def)
  have n: "nat 2 = Suc (Suc 0)" by simp
  show ?thesis
    by (simp only: chunk_values_def r prod.case n proc_planets.simps p fst_conv)
qed

text \<open>
  Claim C3. Generating a chunk in a fresh universe never raises, leaves the chunk
  cached, and the planets it caches are \<open>chunk_values L c\<close>: a function of the
  library and the chunk key alone. Whatever the generator state, the heap, the
  allocation counter, the player and the loaded systems were before, two generations of
  the same key give the same list of planets: the same number, and planet by planet the
  same position, radius and colour (and every other field).
\<close>

theorem generate_chunk_deterministic:
  "fst (generate_chunk L c (fresh g h n pl cs)) = None \<and>
   planets (universe (snd (generate_chunk L c (fresh g h n pl cs)))) c \<noteq> None \<and>
   chunk_bodies (snd (generate_chunk L c (fresh g h n pl cs))) c = chunk_values L c \<and>
   chunk_bodies (snd (generate_chunk L c (fresh g h n pl cs))) c =
     chunk_bodies (snd (generate_chunk L c (fresh g' h' n' pl' cs'))) c"
proof -
  have one: "fst (generate_chunk L c (fresh g h n pl cs)) = None \<and>
     planets (universe (snd (generate_chunk L c (fresh g h n pl cs)))) c \<noteq> None \<and>
     chunk_bodies (snd (generate_chunk L c (fresh g h n pl cs))) c = chunk_values L c"
    for g :: 'a and h n pl cs
  proof -
    have e: "planets (universe (fresh g h n pl cs)) c = None"
      and z: "chunk_size (universe (fresh g h n pl cs)) = 2000"
      by (simp_all add: fresh_def Universe_init_def)
    from generate_chunk_new [OF e, of L] obtain rs w' where
      r: "generate_chunk L c (fresh g h n pl cs) = (None, w')"
      and u: "universe w' = (universe (fresh g h n pl cs))
                \<lparr>planets := (planets (universe (fresh g h n pl cs)))(c \<mapsto> rs)\<rparr>"
      and v: "map (heap w') rs =
             fst (proc_planets L (chunk_size (universe (fresh g h n pl cs))) c
                    (nat (fst (random_randint L 0 2 (random_seed L (hash_tuple L c)))))
                    (snd (random_randint L 0 2 (random_seed L (hash_tuple L c)))))"
      by blast
    have "chunk_bodies w' c = chunk_values L c"
      using u v z by (simp add: chunk_bodies_def chunk_values_def case_prod_beta)
    then show ?thesis using r u by simp
  qed
  show ?thesis using one [of g h n pl cs] one [of g' h' n' pl' cs'] by simp
qed

theorem generate_chunk_deterministic_witness:
  "chunk_bodies (snd (generate_chunk max_lib (0, 0, 0) empty_world)) (0, 0, 0) =
     [Planet_fields (Vec3 2000 2000 2000)
        (JDict (Some ''proc'') None (Some (JParams (Some 250) None None None None))
           (Some (JColors (Some ''#4488ff''))) None None None None None None None)
        False (1 / 2) (68 / 255, 136 / 255, 1),
      Planet_fields (Vec3 2000 2000 2000)
        (JDict (Some ''proc'') None (Some (JParams (Some 250) None None None None))
           (Some (JColors (Some ''#4488ff''))) None None None None None None None)
        False (1 / 2) (68 / 255, 136 / 255, 1)]"
proof -
  have f: "fresh () (heap empty_world) 0 (player empty_world) [] = empty_world"
    by (simp add: fresh_def empty_world_def)
  have "chunk_bodies (snd (generate_chunk max_lib (0, 0, 0) empty_world)) (0, 0, 0) =
          chunk_values max_lib (0, 0, 0)"
    using generate_chunk_deterministic [of max_lib "(0, 0, 0)" "()" "heap empty_world" 0
        "player empty_world" "[]"]
    by (simp only: f)
  then show ?thesis by (simp only: chunk_values_max)
qed

subsection \<open>Chunks are generated once\<close>

lemma extends_refl: "extends w w"
  by (simp add: extends_def)

lemma extends_persist:
  "extends w w' \<Longrightarrow> planets (universe w) k = Some rs \<Longrightarrow> planets (universe w') k = Some rs"
  unfolding extends_def by blast

lemma extends_chunk_size: "extends w w' \<Longrightarrow> chunk_size (universe w') = chunk_size (universe w)"
  unfolding extends_def by blast

lemma extends_trans:
  assumes "extends w w1" and "extends w1 w2"
  shows "extends w w2"
proof -
  have "\<forall>k rs. planets (universe w) k = Some rs \<longrightarrow> planets (universe w2) k = Some rs"
    using assms unfolding extends_def by blast
  moreover have "chunk_size (universe w2) = chunk_size (universe w)"
    using assms unfolding extends_def by simp
  moreover have "next_ref w \<le> next_ref w2"
    using assms unfolding extends_def by linarith
  moreover have "\<forall>r<next_ref w. heap w2 r = heap w r"
    using assms unfolding extends_def by (metis less_le_trans)
  moreover have "cache_ok w \<longrightarrow> cache_ok w2"
    using assms unfolding extends_def by blast
  ultimately show ?thesis unfolding extends_def by blast
qed

lemma generate_chunk_extends:
  "\<exists>w'. generate_chunk L k w = (None, w') \<and> planets (universe w') k \<noteq> None \<and> extends w w'"
proof (cases "planets (universe w) k")
  case (Some rs)
  then show ?thesis by (simp add: generate_chunk_cached extends_refl)
next
  case None
  from generate_chunk_new [OF None, of L] obtain rs w' where
    g: "generate_chunk L k w = (None, w')"
    and u: "universe w' = (universe w)\<lparr>planets := (planets (universe w))(k \<mapsto> rs)\<rparr>"
    and l: "gen_log w' = gen_log w @ [k]"
    and h: "\<forall>r<next_ref w. heap w' r = heap w r" "next_ref w \<le> next_ref w'"
    by blast
  have c: "cache_ok w \<longrightarrow> cache_ok w'"
  proof
    assume "cache_ok w"
    then have d: "distinct (gen_log w)" and s: "set (gen_log w) = dom (planets (universe w))"
      by (simp_all add: cache_ok_def)
    have "k \<notin> set (gen_log w)" using s None by (simp add: domIff)
    then have "distinct (gen_log w')" using d l by simp
    moreover have "set (gen_log w') = dom (planets (universe w'))"
      using s l u by simp
    ultimately show "cache_ok w'" by (simp add: cache_ok_def)
  qed
  have p: "\<forall>j rs'. planets (universe w) j = Some rs' \<longrightarrow> planets (universe w') j = Some rs'"
    using None u by (metis (no_types, lifting) Universe.select_convs(2) Universe.surjective
        Universe.update_convs(2) fun_upd_apply option.distinct(1))
  have cs: "chunk_size (universe w') = chunk_size (universe w)" using u by simp
  have "extends w w'"
    unfolding extends_def using p cs h c by blast
  moreover have "planets (universe w') k \<noteq> None" using u by simp
  ultimately show ?thesis using g by blast
qed

lemma active_loop_result:
  "\<exists>w'. active_loop L ks acc w = (Inr (acc @ concat (map (cached_refs w') ks)), w') \<and>
        (\<forall>k\<in>set ks. planets (universe w') k \<noteq> None) \<and> extends w w'"
proof (induction ks arbitrary: acc w)
  case Nil
  show ?case by (simp add: extends_refl)
next
  case (Cons k ks)
  obtain w1 where g: "generate_chunk L k w = (None, w1)"
    and k1: "planets (universe w1) k \<noteq> None" and e1: "extends w w1"
    using generate_chunk_extends [of L k w] by blast
  obtain rs where rs: "planets (universe w1) k = Some rs" using k1 by blast
  obtain w' where
    a: "active_loop L ks (acc @ rs) w1 = (Inr ((acc @ rs) @ concat (map (cached_refs w') ks)), w')"
    and c: "\<forall>k\<in>set ks. planets (universe w') k \<noteq> None" and e2: "extends w1 w'"
    using Cons.IH [of "acc @ rs" w1] by blast
  have k': "planets (universe w') k = Some rs"
    using e2 rs by (rule extends_persist)
  have "active_loop L (k # ks) acc w = (Inr (acc @ concat (map (cached_refs w') (k # ks))), w')"
    using g rs a k' by (simp add: cached_refs_def)
  moreover have "\<forall>j\<in>set (k # ks). planets (universe w') j \<noteq> None"
    using c k' by simp
  ultimately show ?case using extends_trans [OF e1 e2] by blast
qed

lemma active_loop_cached:
  "\<forall>k\<in>set ks. planets (universe w) k \<noteq> None \<Longrightarrow>
     active_loop L ks acc w = (Inr (acc @ concat (map (cached_refs w) ks)), w)"
  by (induction ks arbitrary: acc)
     (auto simp: generate_chunk_cached cached_refs_def)

lemma get_active_planets_result:
  "\<exists>r w'. get_active_planets L p w = (r, w') \<and> extends w w' \<and>
     (\<forall>c. get_chunk (universe w) p = Inr c \<longrightarrow>
        r = Inr (concat (map (cached_refs w') (neighbourhood c))) \<and>
        (\<forall>k\<in>set (neighbourhood c). planets (universe w') k \<noteq> None))"
proof (cases "get_chunk (universe w) p")
  case (Inl e)
  then show ?thesis by (simp add: get_active_planets_def extends_refl)
next
  case (Inr c)
  obtain w' where
    a: "active_loop L (neighbourhood c) [] w
          = (Inr ([] @ concat (map (cached_refs w') (neighbourhood c))), w')"
    and k: "\<forall>k\<in>set (neighbourhood c). planets (universe w') k \<noteq> None"
    and e: "extends w w'"
    using active_loop_result [of L "neighbourhood c" "[]" w] by blast
  have "get_active_planets L p w = (Inr (concat (map (cached_refs w') (neighbourhood c))), w')"
    using Inr a by (simp add: get_active_planets_def)
  then show ?thesis using Inr k e by simp
qed

lemma get_chunk_same:
  "chunk_size (universe w') = chunk_size (universe w) \<Longrightarrow>
     get_chunk (universe w') p = get_chunk (universe w) p"
  by (simp add: get_chunk_def)

lemma get_active_planets_again:
  assumes "get_active_planets L p w = (Inr bs, w')"
  shows "get_active_planets L p w' = (Inr bs, w')"
proof -
  obtain c where c: "get_chunk (universe w) p = Inr c"
    using assms by (cases "get_chunk (universe w) p") (auto simp: get_active_planets_def)
  obtain r w2 where g: "get_active_planets L p w = (r, w2)" and e2: "extends w w2"
    and r: "\<forall>c. get_chunk (universe w) p = Inr c \<longrightarrow>
        r = Inr (concat (map (cached_refs w2) (neighbourhood c))) \<and>
        (\<forall>k\<in>set (neighbourhood c). planets (universe w2) k \<noteq> None)"
    using get_active_planets_result [of L p w] by blast
  have w2: "w2 = w'" and rr: "r = Inr bs" using g assms by simp_all
  have e: "extends w w'" using e2 w2 by simp
  have bs: "bs = concat (map (cached_refs w') (neighbourhood c))"
    and all: "\<forall>k\<in>set (neighbourhood c). planets (universe w') k \<noteq> None"
    using r c w2 rr by simp_all
  have "get_chunk (universe w') p = Inr c"
    using c get_chunk_same [OF extends_chunk_size [OF e], of p] by simp
  then show ?thesis
    using active_loop_cached [OF all, of L "[]"] bs by (simp add: get_active_planets_def)
qed

lemma queries_extends: "extends w (queries L ps w)"
proof (induction ps arbitrary: w)
  case Nil
  show ?case by (simp add: extends_refl)
next
  case (Cons p ps)
  obtain r w' where g: "get_active_planets L p w = (r, w')" and e: "extends w w'"
    using get_active_planets_result [of L p w] by blast
  show ?case
  proof (cases r)
    case (Inl err)
    then show ?thesis using g e by simp
  next
    case (Inr bs)
    then show ?thesis using g extends_trans [OF e Cons.IH [of w']] by simp
  qed
qed

lemma fresh_cache_ok: "cache_ok (fresh g h n pl cs)"
  by (simp add: cache_ok_def fresh_def Universe_init_def)

text \<open>
  Claim C4. For every sequence of queries at arbitrary observer positions: from a fresh
  universe no chunk key occurs twice in the log of generations; from any state in which
  every cached key was generated once, that stays so; a key that is cached keeps its
  list of references, and the objects allocated before are unchanged; generating a
  cached key changes nothing; a query that returned can be repeated and returns the
  same references in the same state, namely the cached lists of the 27 neighbouring
  chunks; and a query returns whenever the chunk size is not zero.
\<close>

theorem chunks_generated_once:
  "distinct (gen_log (queries L ps (fresh g h n pl cs))) \<and>
   (cache_ok w \<longrightarrow> cache_ok (queries L ps w)) \<and>
   (\<forall>k rs. planets (universe w) k = Some rs \<longrightarrow>
      planets (universe (queries L ps w)) k = Some rs) \<and>
   (\<forall>r<next_ref w. heap (queries L ps w) r = heap w r) \<and>
   (\<forall>k. planets (universe w) k \<noteq> None \<longrightarrow> generate_chunk L k w = (None, w)) \<and>
   (\<forall>bs w'. get_active_planets L p w = (Inr bs, w') \<longrightarrow>
      get_active_planets L p w' = (Inr bs, w') \<and>
      (\<forall>c. get_chunk (universe w) p = Inr c \<longrightarrow>
         bs = concat (map (cached_refs w') (neighbourhood c)))) \<and>
   (chunk_size (universe w) \<noteq> 0 \<longrightarrow> (\<exists>bs w'. get_active_planets L p w = (Inr bs, w')))"
proof -
  have e: "extends w (queries L ps w)" for w :: "'a World"
    by (rule queries_extends)
  have 1: "distinct (gen_log (queries L ps (fresh g h n pl cs)))"
    using e [of "fresh g h n pl cs"] fresh_cache_ok [of g h n pl cs]
    unfolding extends_def cache_ok_def by blast
  have 2: "cache_ok w \<longrightarrow> cache_ok (queries L ps w)"
    using e [of w] unfolding extends_def by blast
  have 3: "\<forall>k rs. planets (universe w) k = Some rs \<longrightarrow>
      planets (universe (queries L ps w)) k = Some rs"
    using e [of w] unfolding extends_def by blast
  have 4: "\<forall>r<next_ref w. heap (queries L ps w) r = heap w r"
    using e [of w] unfolding extends_def by blast
  have 5: "\<forall>k. planets (universe w) k \<noteq> None \<longrightarrow> generate_chunk L k w = (None, w)"
    by (simp add: generate_chunk_cached)
  have 6: "get_active_planets L p w' = (Inr bs, w') \<and>
      (\<forall>c. get_chunk (universe w) p = Inr c \<longrightarrow>
         bs = concat (map (cached_refs w') (neighbourhood c)))"
    if a: "get_active_planets L p w = (Inr bs, w')" for bs w'
  proof -
    obtain r w2 where g2: "get_active_planets L p w = (r, w2)"
      and r: "\<forall>c. get_chunk (universe w) p = Inr c \<longrightarrow>
        r = Inr (concat (map (cached_refs w2) (neighbourhood c))) \<and>
        (\<forall>k\<in>set (neighbourhood c). planets (universe w2) k \<noteq> None)"
      using get_active_planets_result [of L p w] by blast
    have "w2 = w'" "r = Inr bs" using g2 a by simp_all
    then have "\<forall>c. get_chunk (universe w) p = Inr c \<longrightarrow>
         bs = concat (map (cached_refs w') (neighbourhood c))"
      using r by simp
    then show ?thesis using get_active_planets_again [OF a] by simp
  qed
  have 7: "\<exists>bs w'. get_active_planets L p w = (Inr bs, w')" if "chunk_size (universe w) \<noteq> 0"
  proof -
    have "\<exists>c. get_chunk (universe w) p = Inr c"
      using that by (simp add: get_chunk_def)
    then obtain c where c: "get_chunk (universe w) p = Inr c" by blast
    then show ?thesis using get_active_planets_result [of L p w] by blast
  qed
  show ?thesis using 1 2 3 4 5 6 7 by blast
qed

theorem chunks_generated_once_witness:
  "planets (universe (snd (generate_chunk max_lib (0, 0, 0) empty_world))) (0, 0, 0) \<noteq> None \<and>
   planets (universe (queries max_lib [Vec3 0 0 0, Vec3 5000 1 (- 1)]
                        (snd (generate_chunk max_lib (0, 0, 0) empty_world)))) (0, 0, 0)
     = planets (universe (snd (generate_chunk max_lib (0, 0, 0) empty_world))) (0, 0, 0) \<and>
   generate_chunk max_lib (0, 0, 0) (snd (generate_chunk max_lib (0, 0, 0) empty_world))
     = (None, snd (generate_chunk max_lib (0, 0, 0) empty_world)) \<and>
   distinct (gen_log (queries max_lib [Vec3 0 0 0, Vec3 5000 1 (- 1)] empty_world)) \<and>
   (\<exists>bs w'. get_active_planets max_lib (Vec3 0 0 0) empty_world = (Inr bs, w') \<and>
             get_active_planets max_lib (Vec3 0 0 0) w' = (Inr bs, w'))"
proof -
  define w1 where "w1 = snd (generate_chunk max_lib (0, 0, 0) empty_world)"
  obtain w2 where "generate_chunk max_lib (0, 0, 0) empty_world = (None, w2)"
    and "planets (universe w2) (0, 0, 0) \<noteq> None"
    using generate_chunk_extends [of max_lib "(0, 0, 0)" empty_world] by blast
  then have c1: "planets (universe w1) (0, 0, 0) \<noteq> None" by (simp add: w1_def)
  then obtain rs where c: "planets (universe w1) (0, 0, 0) = Some rs" by blast
  note th = chunks_generated_once [of max_lib "[Vec3 0 0 0, Vec3 5000 1 (- 1)]"
      "()" "heap empty_world" 0 "player empty_world" "[]" w1 "Vec3 0 0 0"]
  have p: "planets (universe (queries max_lib [Vec3 0 0 0, Vec3 5000 1 (- 1)] w1)) (0, 0, 0)
             = Some rs"
    using th c by blast
  have g: "generate_chunk max_lib (0, 0, 0) w1 = (None, w1)"
    using th c by (metis option.distinct(1))
  have f: "fresh () (heap empty_world) 0 (player empty_world) [] = empty_world"
    by (simp add: fresh_def empty_world_def)
  have d: "distinct (gen_log (queries max_lib [Vec3 0 0 0, Vec3 5000 1 (- 1)] empty_world))"
    using th [THEN conjunct1] by (simp only: f)
  note th0 = chunks_generated_once [of max_lib "[]" "()" "heap empty_world" 0
      "player empty_world" "[]" empty_world "Vec3 0 0 0"]
  have z: "chunk_size (universe empty_world) \<noteq> 0"
    by (simp add: empty_world_def Universe_init_def)
  obtain bs w' where a: "get_active_planets max_lib (Vec3 0 0 0) empty_world = (Inr bs, w')"
    using th0 z by blast
  then have "get_active_planets max_lib (Vec3 0 0 0) w' = (Inr bs, w')"
    using th0 by blast
  then have ex: "\<exists>bs w'. get_active_planets max_lib (Vec3 0 0 0) empty_world = (Inr bs, w') \<and>
             get_active_planets max_lib (Vec3 0 0 0) w' = (Inr bs, w')"
    using a by blast
  have p1: "planets (universe (queries max_lib [Vec3 0 0 0, Vec3 5000 1 (- 1)] w1)) (0, 0, 0)
             = planets (universe w1) (0, 0, 0)"
    using p c by simp
  show ?thesis
    unfolding w1_def [symmetric] using c1 p1 g d ex by (intro conjI)
qed

subsection \<open>Imports publish complete groups only\<close>

lemma Planet_init_globals:
  "Planet_init L p d hm w = (r, w1) \<Longrightarrow>
     custom_systems w1 = custom_systems w \<and> player w1 = player w"
  by (auto simp: Planet_init_def split: prod.splits sum.splits)

lemma Planet_init_name:
  "Planet_init L p d hm w = (Inr r, w1) \<Longrightarrow> name (heap w1 r) = or_name ''Unknown'' (j_seed d)"
  by (auto simp: Planet_init_def Planet_fields_def or_name_def split: prod.splits sum.splits)

lemma add_body_name: "sys_name (add_body h s b) = sys_name s"
  by (simp add: add_body_def Let_def)

lemma galaxy_body_result:
  assumes "galaxy_body L bd sys w = (r, sys', w')"
  shows "custom_systems w' = custom_systems w \<and> player w' = player w \<and>
         (r = None \<longrightarrow> sys_name sys' = sys_name sys \<and>
                        length (bodies sys') = Suc (length (bodies sys)))"
proof (cases "Planet_init L (Vec3_add (center_pos sys)
                (Vec3 (case j_orbitDistance bd of None \<Rightarrow> 0 | Some d \<Rightarrow> d) 0 0)) bd None w")
  case (Pair a w1)
  note g = Planet_init_globals [OF Pair]
  show ?thesis
  proof (cases a)
    case (Inl e)
    then show ?thesis using assms Pair g by (auto simp: galaxy_body_def Let_def)
  next
    case (Inr b)
    then show ?thesis
      using assms Pair g by (auto simp: galaxy_body_def Let_def add_body_name add_body_bodies)
  qed
qed

lemma galaxy_bodies_result:
  "galaxy_bodies L bds sys w = (r, sys', w') \<Longrightarrow>
     custom_systems w' = custom_systems w \<and> player w' = player w \<and>
     (r = None \<longrightarrow> sys_name sys' = sys_name sys \<and>
                    length (bodies sys') = length (bodies sys) + length bds)"
proof (induction bds arbitrary: sys w)
  case Nil
  then show ?case by simp
next
  case (Cons bd bds)
  obtain r1 sys1 w1 where b: "galaxy_body L bd sys w = (r1, sys1, w1)"
    by (metis prod_cases3)
  note b1 = galaxy_body_result [OF b]
  show ?case
  proof (cases r1)
    case (Some e)
    then show ?thesis using Cons.prems b b1 by auto
  next
    case None
    then have "galaxy_bodies L bds sys1 w1 = (r, sys', w')" using Cons.prems b by simp
    from Cons.IH [OF this] b1 None show ?thesis by simp
  qed
qed

lemma galaxy_system_result:
  assumes "galaxy_system L sd w = (r, w')"
  shows "player w' = player w \<and>
         (r = None \<longrightarrow> (\<exists>g. custom_systems w' = custom_systems w @ [g] \<and> summary g = galaxy_group sd)) \<and>
         (r \<noteq> None \<longrightarrow> custom_systems w' = custom_systems w)"
proof -
  define a where "a = fst (random_randint L (- 2000) 2000 (rng w))"
  define g1 where "g1 = snd (random_randint L (- 2000) 2000 (rng w))"
  define b where "b = fst (random_randint L (- 2000) 2000 g1)"
  define g2 where "g2 = snd (random_randint L (- 2000) 2000 g1)"
  define sys where "sys = (SolarSystem_init (case j_name sd of None \<Rightarrow> ''Galaxy System'' | Some n \<Rightarrow> n))
                  \<lparr>center_pos := Vec3_add (s_pos (player w)) (Vec3 (of_int a) 0 (of_int b))\<rparr>"
  obtain r1 sys1 w1 where
    gb: "galaxy_bodies L (case j_bodies sd of None \<Rightarrow> [] | Some bs \<Rightarrow> bs) sys (w\<lparr>rng := g2\<rparr>)
           = (r1, sys1, w1)"
    by (metis prod_cases3)
  note res = galaxy_bodies_result [OF gb]
  have unf: "galaxy_system L sd w =
               (case r1 of Some e \<Rightarrow> (Some e, w1)
                | None \<Rightarrow> (None, w1\<lparr>custom_systems := custom_systems w1 @ [sys1]\<rparr>))"
    using gb unfolding galaxy_system_def a_def g1_def b_def g2_def sys_def
    by (simp add: case_prod_beta Let_def split: option.splits)
  show ?thesis
  proof (cases r1)
    case (Some e)
    then show ?thesis using assms unf res by auto
  next
    case None
    have "summary sys1 = galaxy_group sd"
      using res None
      by (simp add: summary_def galaxy_group_def sys_def SolarSystem_init_def or_name_def
          or_nil_def)
    then show ?thesis using assms unf res None by auto
  qed
qed

lemma galaxy_systems_result:
  "galaxy_systems L sds w = (r, w') \<Longrightarrow>
     player w' = player w \<and>
     (\<exists>new. custom_systems w' = custom_systems w @ new \<and>
            map summary new = take (length new) (map galaxy_group sds) \<and>
            (r = None \<longrightarrow> length new = length sds))"
proof (induction sds arbitrary: w)
  case Nil
  then show ?case by simp
next
  case (Cons sd sds)
  obtain r1 w1 where s: "galaxy_system L sd w = (r1, w1)" by (metis surj_pair)
  note s1 = galaxy_system_result [OF s]
  show ?case
  proof (cases r1)
    case (Some e)
    then have "w' = w1" "custom_systems w1 = custom_systems w" "player w1 = player w"
      and "r = Some e"
      using Cons.prems s s1 by auto
    then show ?thesis by simp
  next
    case None
    obtain g where g: "custom_systems w1 = custom_systems w @ [g]" "summary g = galaxy_group sd"
      using s1 None by blast
    have "galaxy_systems L sds w1 = (r, w')" using Cons.prems s None by simp
    from Cons.IH [OF this] obtain new where
      n: "custom_systems w' = custom_systems w1 @ new"
         "map summary new = take (length new) (map galaxy_group sds)"
         "r = None \<longrightarrow> length new = length sds"
      and p: "player w' = player w1"
      by blast
    have 1: "custom_systems w' = custom_systems w @ (g # new)" using n(1) g(1) by simp
    have 2: "map summary (g # new) = take (length (g # new)) (map galaxy_group (sd # sds))"
      using n(2) g(2) by simp
    have 3: "r = None \<longrightarrow> length (g # new) = length (sd # sds)" using n(3) by simp
    have 4: "player w' = player w" using p s1 by simp
    show ?thesis
      by (rule conjI [OF 4], rule exI [of _ "g # new"], intro conjI, rule 1, rule 2, rule 3)
  qed
qed


lemma imported_failed: "imported ds w (Some e) w"
  by (simp add: imported_def)

lemma imported_message:
  "imported ds w r w' \<Longrightarrow> imported ds w r (w'\<lparr>player := pl\<rparr>)"
  by (simp add: imported_def)

lemma load_galaxy_result:
  assumes "load_galaxy L z w = (r, w')"
  shows "imported (galaxy_descr z) w r w'"
proof (cases "z ''galaxy_data.json''")
  case None
  then show ?thesis
    using assms by (auto simp: load_galaxy_def zip_read_def imported_failed)
next
  case (Some c)
  show ?thesis
  proof (cases c)
    case (Json galaxy)
    obtain r1 w1 where g: "galaxy_systems L (take 4 (or_nil (j_systems galaxy))) w = (r1, w1)"
      by (metis surj_pair)
    from galaxy_systems_result [OF g] have i: "imported (galaxy_descr z) w r1 w1"
      using Some Json by (simp add: imported_def galaxy_descr_def)
    show ?thesis
    proof (cases r1)
      case None
      then show ?thesis
        using assms Some Json g imported_message [OF i]
        by (auto simp: load_galaxy_def zip_read_def json_loads_def or_nil_def)
    next
      case (Some e)
      then show ?thesis
        using assms \<open>z ''galaxy_data.json'' = Some c\<close> Json g i
        by (auto simp: load_galaxy_def zip_read_def json_loads_def or_nil_def)
    qed
  qed (use assms Some in \<open>auto simp: load_galaxy_def zip_read_def json_loads_def imported_failed\<close>)
qed

lemma load_single_planet_result:
  assumes "load_single_planet L z w = (r, w')"
  shows "imported (planet_descr z) w r w'"
proof (cases "z ''planet_data.json''")
  case None
  then show ?thesis
    using assms by (auto simp: load_single_planet_def zip_read_def imported_failed)
next
  case (Some c)
  show ?thesis
  proof (cases c)
    case (Json data)
    define g3 where "g3 = snd (random_randint L 800 1400 (snd (random_randint L 80 300
                               (snd (random_randint L 800 1400 (rng w))))))"
    define p where "p = Vec3_add (s_pos (player w))
        (Vec3 (of_int (fst (random_randint L 800 1400 (rng w))))
              (of_int (fst (random_randint L 80 300 (snd (random_randint L 800 1400 (rng w))))))
              (of_int (fst (random_randint L 800 1400 (snd (random_randint L 80 300
                               (snd (random_randint L 800 1400 (rng w)))))))))"
    obtain a w1 where i: "Planet_init L p data (z ''heightmap.png'') (w\<lparr>rng := g3\<rparr>) = (a, w1)"
      by (metis surj_pair)
    have cs: "custom_systems w1 = custom_systems w"
      using Planet_init_globals [OF i] by simp
    have unf: "load_single_planet L z w =
                 (case a of
                    Inl e \<Rightarrow> (Some e, w1)
                  | Inr planet \<Rightarrow>
                      (None,
                       w1\<lparr>custom_systems := custom_systems w1 @
                            [add_body (heap w1) (SolarSystem_init (name (heap w1 planet))) planet],
                          player := (player w1)
                            \<lparr>ui_message := ''Loaded planet: '' @ name (heap w1 planet)\<rparr>\<rparr>))"
      using Some Json i unfolding load_single_planet_def g3_def p_def
      by (simp add: zip_read_def json_loads_def case_prod_beta Let_def split: sum.splits)
    show ?thesis
    proof (cases a)
      case (Inl e)
      then show ?thesis using assms unf cs by (auto simp: imported_def)
    next
      case (Inr planet)
      have n: "name (heap w1 planet) = or_name ''Unknown'' (j_seed data)"
        using i Inr Planet_init_name by blast
      have "summary (add_body (heap w1) (SolarSystem_init (name (heap w1 planet))) planet)
              = (or_name ''Unknown'' (j_seed data), 1)"
        by (simp add: summary_def add_body_name add_body_bodies SolarSystem_init_def n)
      then show ?thesis
        using assms unf cs Inr Some Json
        by (auto simp: imported_def planet_descr_def)
    qed
  qed (use assms Some in \<open>auto simp: load_single_planet_def zip_read_def json_loads_def imported_failed\<close>)
qed


lemma load_body_result:
  assumes "load_body L z info sys w = (r, sys', w')"
  shows "custom_systems w' = custom_systems w \<and>
         (r = None \<longrightarrow> sys_name sys' = sys_name sys \<and>
            length (bodies sys') = length (bodies sys) + (if present z info then 1 else 0))"
proof (cases "j_file info")
  case None
  then show ?thesis using assms by (auto simp: load_body_def)
next
  case (Some f)
  show ?thesis
  proof (cases "z f")
    case None
    then show ?thesis using assms Some by (auto simp: load_body_def present_def)
  next
    case fc: (Some c)
    have pr: "present z info" using Some fc by (simp add: present_def)
    show ?thesis
    proof (cases c)
      case (Archive body_zip)
      show ?thesis
      proof (cases "body_zip ''planet_data.json''")
        case None
        then show ?thesis
          using assms Some fc Archive by (auto simp: load_body_def ZipFile_def zip_read_def)
      next
        case pc: (Some c2)
        show ?thesis
        proof (cases c2)
          case (Json data)
          define p where "p = Vec3_add (center_pos sys)
                (Vec3 (case j_orbitDistance info of None \<Rightarrow> 300 | Some d \<Rightarrow> d) 0 0)"
          obtain a w1 where i: "Planet_init L p data (body_zip ''heightmap.png'') w = (a, w1)"
            by (metis surj_pair)
          have cs: "custom_systems w1 = custom_systems w"
            using Planet_init_globals [OF i] by simp
          show ?thesis
          proof (cases a)
            case (Inl e)
            then show ?thesis
              using assms Some fc Archive pc Json i cs unfolding p_def
              by (auto simp: load_body_def ZipFile_def zip_read_def json_loads_def Let_def)
          next
            case (Inr planet)
            show ?thesis
            proof (cases "resolve_parent info (bodies sys)")
              case (Inl e)
              then show ?thesis
                using assms Some fc Archive pc Json i cs \<open>a = Inr planet\<close> unfolding p_def
                by (auto simp: load_body_def ZipFile_def zip_read_def json_loads_def Let_def)
            next
              case par: (Inr b)
              then show ?thesis
                using assms Some fc Archive pc Json i cs \<open>a = Inr planet\<close> pr unfolding p_def
                by (auto simp: load_body_def ZipFile_def zip_read_def json_loads_def Let_def
                    add_body_name add_body_bodies)
            qed
          qed
        qed (use assms Some fc Archive pc in
              \<open>auto simp: load_body_def ZipFile_def zip_read_def json_loads_def\<close>)
      qed
    qed (use assms Some fc in \<open>auto simp: load_body_def ZipFile_def\<close>)
  qed
qed

lemma load_bodies_result:
  "load_bodies L z infos sys w = (r, sys', w') \<Longrightarrow>
     custom_systems w' = custom_systems w \<and>
     (r = None \<longrightarrow> sys_name sys' = sys_name sys \<and>
        length (bodies sys') = length (bodies sys) + length (filter (present z) infos))"
proof (induction infos arbitrary: sys w)
  case Nil
  then show ?case by simp
next
  case (Cons info infos)
  obtain r1 sys1 w1 where b: "load_body L z info sys w = (r1, sys1, w1)"
    by (metis prod_cases3)
  note b1 = load_body_result [OF b]
  show ?case
  proof (cases r1)
    case (Some e)
    then show ?thesis using Cons.prems b b1 by auto
  next
    case None
    then have "load_bodies L z infos sys1 w1 = (r, sys', w')" using Cons.prems b by simp
    from Cons.IH [OF this] b1 None show ?thesis by simp
  qed
qed

lemma load_solar_system_result:
  assumes "load_solar_system L z w = (r, w')"
  shows "imported (system_descr z) w r w'"
proof (cases "z ''system_data.json''")
  case None
  then show ?thesis
    using assms by (auto simp: load_solar_system_def zip_read_def imported_failed)
next
  case (Some c)
  show ?thesis
  proof (cases c)
    case (Json manifest)
    define sys where "sys = (SolarSystem_init (case j_name manifest of
                                               None \<Rightarrow> ''Imported System'' | Some n \<Rightarrow> n))
                            \<lparr>center_pos := Vec3_copy (s_pos (player w))\<rparr>"
    obtain r1 sys1 w1 where
      b: "load_bodies L z (case j_bodies manifest of None \<Rightarrow> [] | Some bs \<Rightarrow> bs) sys w
            = (r1, sys1, w1)"
      by (metis prod_cases3)
    note res = load_bodies_result [OF b]
    have unf: "load_solar_system L z w =
                 (case r1 of
                    Some e \<Rightarrow> (Some e, w1)
                  | None \<Rightarrow>
                      (None,
                       w1\<lparr>custom_systems := custom_systems w1 @ [sys1],
                          player := (player w1)
                            \<lparr>ui_message := ''Loaded system: '' @ sys_name sys1\<rparr>\<rparr>))"
      using Some Json b unfolding load_solar_system_def sys_def
      by (simp add: zip_read_def json_loads_def Let_def split: option.splits)
    show ?thesis
    proof (cases r1)
      case (Some e)
      then show ?thesis using assms unf res by (auto simp: imported_def)
    next
      case None
      have "summary sys1 = (or_name ''Imported System'' (j_name manifest),
                            length (filter (present z) (or_nil (j_bodies manifest))))"
        using res None
        by (simp add: summary_def sys_def SolarSystem_init_def or_name_def or_nil_def)
      then show ?thesis
        using assms unf res None \<open>z ''system_data.json'' = Some c\<close> Json
        by (auto simp: imported_def system_descr_def)
    qed
  qed (use assms Some in \<open>auto simp: load_solar_system_def zip_read_def json_loads_def imported_failed\<close>)
qed

lemma dispatch_result:
  assumes "dispatch L chosen w = (r, w')"
  shows "imported (described chosen) w r w'"
proof (cases chosen)
  case (Archive z)
  show ?thesis
  proof (cases "z ''galaxy_data.json'' \<noteq> None")
    case True
    then show ?thesis
      using assms Archive load_galaxy_result [of L z w r w']
      by (simp add: dispatch_def ZipFile_def described_def)
  next
    case g: False
    show ?thesis
    proof (cases "z ''system_data.json'' \<noteq> None")
      case True
      then show ?thesis
        using assms Archive g load_solar_system_result [of L z w r w']
        by (simp add: dispatch_def ZipFile_def described_def)
    next
      case s: False
      show ?thesis
      proof (cases "z ''planet_data.json'' \<noteq> None")
        case True
        then show ?thesis
          using assms Archive g s load_single_planet_result [of L z w r w']
          by (simp add: dispatch_def ZipFile_def described_def)
      next
        case False
        then show ?thesis
          using assms Archive g s
          by (auto simp: dispatch_def ZipFile_def described_def imported_def)
      qed
    qed
  qed
qed (use assms in \<open>auto simp: dispatch_def ZipFile_def described_def imported_def\<close>)

text \<open>
  Claim C9. Whatever file is chosen and however the import ends, the group list after
  \<open>load_editor_zip\<close> is the list from before followed by new groups whose names and
  body counts are, in order, those the archive describes: a group that is in the list
  is complete, and the one under construction when an exception ended the import is
  not in it. When the import raised \<open>e\<close> the call still returns a state, whose status
  message is \<^verbatim>\<open>Load error:\<close> followed by the first 40 characters of the text of
  \<open>e\<close>; a cancelled dialog changes nothing.
\<close>

theorem import_publishes_complete_groups:
  "imported (described chosen) w (fst (dispatch L chosen w)) (load_editor_zip L (Some chosen) w) \<and>
   (\<forall>e. fst (dispatch L chosen w) = Some e \<longrightarrow>
      ui_message (player (load_editor_zip L (Some chosen) w))
        = ''Load error: '' @ take 40 (exc_str L e)) \<and>
   load_editor_zip L None w = w"
proof -
  obtain r w1 where d: "dispatch L chosen w = (r, w1)" by (metis surj_pair)
  note i = dispatch_result [OF d]
  show ?thesis
  proof (cases r)
    case None
    then show ?thesis using d i by (simp add: load_editor_zip_def)
  next
    case (Some e)
    then show ?thesis
      using d imported_message [OF i] by (simp add: load_editor_zip_def)
  qed
qed

text \<open>The example archive: system A is appended complete, system B fails and is not.\<close>

lemma Planet_init_bad:
  "Planet_init L p (with_ocean ''#12'') None w = (Inl ValueError, w\<lparr>rng := snd (random_random L (rng w))\<rparr>)"
  by (simp add: Planet_init_def ocean_hex_def with_ocean_def hex_color_bad case_prod_beta)

lemma galaxy_body_jempty:
  "fst (galaxy_body L jempty sys w) = None \<and>
   bodies (fst (snd (galaxy_body L jempty sys w))) = bodies sys @ [next_ref w] \<and>
   sys_name (fst (snd (galaxy_body L jempty sys w))) = sys_name sys \<and>
   custom_systems (snd (snd (galaxy_body L jempty sys w))) = custom_systems w \<and>
   next_ref (snd (snd (galaxy_body L jempty sys w))) = Suc (next_ref w)"
  by (simp add: galaxy_body_def Planet_init_jempty Let_def add_body_bodies add_body_name)

lemma galaxy_system_A:
  "fst (galaxy_system L (named_system ''A'' [jempty, jempty]) w) = None \<and>
   map summary (custom_systems (snd (galaxy_system L (named_system ''A'' [jempty, jempty]) w)))
     = map summary (custom_systems w) @ [(''A'', 2)]"
proof -
  obtain r w' where g: "galaxy_system L (named_system ''A'' [jempty, jempty]) w = (r, w')"
    by (metis surj_pair)
  define sys where "sys = (SolarSystem_init ''A'')
     \<lparr>center_pos := Vec3_add (s_pos (player w))
        (Vec3 (of_int (fst (random_randint L (- 2000) 2000 (rng w)))) 0
              (of_int (fst (random_randint L (- 2000) 2000
                              (snd (random_randint L (- 2000) 2000 (rng w)))))))\<rparr>"
  define w0 where "w0 = w\<lparr>rng := snd (random_randint L (- 2000) 2000
                              (snd (random_randint L (- 2000) 2000 (rng w))))\<rparr>"
  obtain r1 s1 w1 where b1: "galaxy_body L jempty sys w0 = (r1, s1, w1)" by (metis prod_cases3)
  have r1: "r1 = None" using galaxy_body_jempty [of L sys w0] b1 by simp
  obtain r2 s2 w2 where b2: "galaxy_body L jempty s1 w1 = (r2, s2, w2)" by (metis prod_cases3)
  have r2: "r2 = None" using galaxy_body_jempty [of L s1 w1] b2 by simp
  have s2: "sys_name s2 = ''A''" "length (bodies s2) = 2" "custom_systems w2 = custom_systems w"
    using galaxy_body_jempty [of L sys w0] galaxy_body_jempty [of L s1 w1] b1 b2
    by (simp_all add: sys_def w0_def SolarSystem_init_def)
  have "galaxy_system L (named_system ''A'' [jempty, jempty]) w
          = (None, w2\<lparr>custom_systems := custom_systems w2 @ [s2]\<rparr>)"
    using b1 b2 r1 r2 unfolding galaxy_system_def sys_def w0_def
    by (simp add: named_system_def case_prod_beta Let_def)
  then show ?thesis using s2 by (simp add: summary_def)
qed

lemma galaxy_system_B:
  "fst (galaxy_system L (named_system ''B'' [jempty, with_ocean ''#12'']) w) = Some ValueError"
proof -
  define sys where "sys = (SolarSystem_init ''B'')
     \<lparr>center_pos := Vec3_add (s_pos (player w))
        (Vec3 (of_int (fst (random_randint L (- 2000) 2000 (rng w)))) 0
              (of_int (fst (random_randint L (- 2000) 2000
                              (snd (random_randint L (- 2000) 2000 (rng w)))))))\<rparr>"
  define w0 where "w0 = w\<lparr>rng := snd (random_randint L (- 2000) 2000
                              (snd (random_randint L (- 2000) 2000 (rng w))))\<rparr>"
  obtain r1 s1 w1 where b1: "galaxy_body L jempty sys w0 = (r1, s1, w1)" by (metis prod_cases3)
  have r1: "r1 = None" using galaxy_body_jempty [of L sys w0] b1 by simp
  have b2: "fst (galaxy_body L (with_ocean ''#12'') s1 w1) = Some ValueError"
    by (simp add: galaxy_body_def Planet_init_bad Let_def)
  obtain s2 w2 where b2': "galaxy_body L (with_ocean ''#12'') s1 w1 = (Some ValueError, s2, w2)"
    using b2 by (metis fst_conv prod_cases3)
  show ?thesis
    using b1 b2' r1 unfolding galaxy_system_def sys_def w0_def
    by (simp add: named_system_def case_prod_beta Let_def)
qed

theorem import_publishes_complete_groups_witness:
  "described (Archive galaxy_zip) = [(''A'', 2), (''B'', 2)] \<and>
   fst (dispatch fixed_lib (Archive galaxy_zip) empty_world) = Some ValueError \<and>
   map summary (custom_systems (load_editor_zip fixed_lib (Some (Archive galaxy_zip)) empty_world))
     = [(''A'', 2)] \<and>
   ui_message (player (load_editor_zip fixed_lib (Some (Archive galaxy_zip)) empty_world))
     = ''Load error: error''"
proof -
  have d: "described (Archive galaxy_zip) = [(''A'', 2), (''B'', 2)]"
    by (simp add: described_def galaxy_zip_def galaxy_descr_def or_nil_def galaxy_group_def
        named_system_def or_name_def)
  obtain rA wA where a: "galaxy_system fixed_lib (named_system ''A'' [jempty, jempty]) empty_world
                           = (rA, wA)"
    by (metis surj_pair)
  have rA: "rA = None" and sA: "map summary (custom_systems wA) = [(''A'', 2)]"
    using galaxy_system_A [of fixed_lib empty_world] a by (simp_all add: empty_world_def)
  obtain rB wB where b: "galaxy_system fixed_lib (named_system ''B'' [jempty, with_ocean ''#12'']) wA
                           = (rB, wB)"
    by (metis surj_pair)
  have rB: "rB = Some ValueError" using galaxy_system_B [of fixed_lib wA] b by simp
  have cB: "custom_systems wB = custom_systems wA"
    using galaxy_system_result [OF b] rB by simp
  have disp: "dispatch fixed_lib (Archive galaxy_zip) empty_world = (Some ValueError, wB)"
    using a b rA rB
    by (simp add: dispatch_def ZipFile_def galaxy_zip_def load_galaxy_def zip_read_def
        json_loads_def)
  note th = import_publishes_complete_groups [of "Archive galaxy_zip" empty_world fixed_lib]
  have f: "fst (dispatch fixed_lib (Archive galaxy_zip) empty_world) = Some ValueError"
    using disp by simp
  have m: "ui_message (player (load_editor_zip fixed_lib (Some (Archive galaxy_zip)) empty_world))
             = ''Load error: '' @ take 40 (exc_str fixed_lib ValueError)"
    using th f by blast
  have c: "map summary (custom_systems (load_editor_zip fixed_lib (Some (Archive galaxy_zip)) empty_world))
             = [(''A'', 2)]"
    using disp cB sA by (simp add: load_editor_zip_def)
  show ?thesis using d f c m by (simp add: fixed_lib_def)
qed

end
